theory Spec2Isabelle
  imports Complex_Main "HOL-Library.Word" "HOL-Library.Sublist" "HOL-Library.AList"
begin

section \<open>The command line tool of expo-color-space-plugin (src/cli.ts)\<close>

text \<open>
  The tool locates the Expo configuration file of the working directory (\<open>app.json\<close>,
  \<open>app.config.js\<close> or \<open>app.config.ts\<close>), asks for a colour space unless one was given on
  the command line, and registers the plugin entry: in \<open>app.json\<close> through
  \<open>JSON.parse\<close> and \<open>JSON.stringify\<close>, in the two code formats through a regular
  expression replacement on the text.

  Modelling decisions.
  \<^item> A file holds bytes. A JavaScript string is a list of UTF-16 code units:
    \<open>fs.readFileSync(path, 'utf8')\<close> decodes the bytes of the file as UTF-8, putting
    U+FFFD where they are not UTF-8, and \<open>fs.writeFileSync(path, string)\<close> encodes the
    string as UTF-8.
  \<^item> The working directory is a map from file names to contents; \<open>path.join(process.cwd(),
    file)\<close> is identified with \<open>file\<close>, which is also its \<open>path.basename\<close>. Entries are
    regular files that can be read and written.
  \<^item> The program is written over a JavaScript runtime (record \<open>runtime\<close>) that provides
    \<open>JSON.parse\<close> and \<open>JSON.stringify\<close>. What ECMAScript prescribes for the two is
    the runtime \<open>node\<close>, defined after the program.
  \<^item> Every \<open>console.log\<close>, \<open>console.error\<close>, file system call and the \<open>readline\<close> question
    is recorded, in order, in the trace of the run.
  \<^item> The standard input of the process is a line, or is at its end, or stays silent.
  \<^item> An exception is a value: \<open>Inl\<close> of a sum type. \<open>process.exit(n)\<close> and the normal end
    of the process are the outcome \<open>Exited n\<close>; a process that waits for input that
    never comes has the outcome \<open>Waiting\<close>.
\<close>

subsection \<open>Strings\<close>

type_synonym code_unit = "16 word"
type_synonym jsstring = "code_unit list"

definition lit :: "string \<Rightarrow> jsstring" where
  "lit s = map of_char s"

definition LF :: jsstring where
  "LF = [0x0A]"

text \<open>
  The class \<open>\s\<close> of a JavaScript regular expression, which is also what
  \<open>String.prototype.trim\<close> removes: the WhiteSpace and LineTerminator code points of
  ECMAScript.
\<close>

definition is_space :: "code_unit \<Rightarrow> bool" where
  "is_space c \<longleftrightarrow>
     c \<in> {0x09, 0x0A, 0x0B, 0x0C, 0x0D, 0x20, 0xA0, 0x1680, 0x2028, 0x2029,
          0x202F, 0x205F, 0x3000, 0xFEFF}
     \<or> (0x2000 \<le> c \<and> c \<le> 0x200A)"

definition trim :: "jsstring \<Rightarrow> jsstring" where
  "trim s = rev (dropWhile is_space (rev (dropWhile is_space s)))"

text \<open>\<open>s.includes(t)\<close>: \<open>t\<close> occurs in \<open>s\<close> as a contiguous substring.\<close>

fun String_includes :: "jsstring \<Rightarrow> jsstring \<Rightarrow> bool" where
  "String_includes [] t = (t = [])"
| "String_includes (c # cs) t = (prefix t (c # cs) \<or> String_includes cs t)"

text \<open>\<open>s.split(sep)\<close> for a separator of one code unit.\<close>

fun split_on :: "code_unit \<Rightarrow> jsstring \<Rightarrow> jsstring list" where
  "split_on sep [] = [[]]"
| "split_on sep (c # cs) =
     (if c = sep then [] # split_on sep cs
      else (case split_on sep cs of
              [] \<Rightarrow> [[c]]
            | seg # segs \<Rightarrow> (c # seg) # segs))"

text \<open>\<open>xs[i]\<close> on an array: \<open>undefined\<close> (here \<open>None\<close>) out of range.\<close>

definition at_index :: "'a list \<Rightarrow> nat \<Rightarrow> 'a option" where
  "at_index xs i = (if i < length xs then Some (xs ! i) else None)"

subsection \<open>Bytes and the UTF-8 coding of files\<close>

type_synonym byte = "8 word"

text \<open>The bytes of a text of ASCII characters.\<close>

definition ascii :: "string \<Rightarrow> byte list" where
  "ascii s = map of_char s"

text \<open>The UTF-16 code units of a code point: one unit, or a surrogate pair.\<close>

definition code_point_units :: "nat \<Rightarrow> jsstring" where
  "code_point_units cp =
     (if cp < 0x10000 then [of_nat cp]
      else [of_nat (0xD800 + (cp - 0x10000) div 0x400),
            of_nat (0xDC00 + (cp - 0x10000) mod 0x400)])"

definition in_range :: "nat \<Rightarrow> nat \<Rightarrow> byte \<Rightarrow> bool" where
  "in_range lo hi b \<longleftrightarrow> lo \<le> unat b \<and> unat b \<le> hi"

text \<open>
  The decoder behind \<open>buffer.toString('utf8')\<close>, which is the UTF-8 decoder of the
  Encoding Standard: a lead byte fixes the number of continuation bytes and the range
  of the first of them (no overlong form, no surrogate, nothing above U+10FFFF); a byte
  that cannot start or continue a sequence ends the sequence read so far, which becomes
  one U+FFFD, and is itself decoded again. A leading byte order mark is kept.
\<close>

fun utf8_decode :: "byte list \<Rightarrow> jsstring" where
  "utf8_decode [] = []"
| "utf8_decode (b # bs) =
     (let x = unat b in
      if x < 0x80 then of_nat x # utf8_decode bs
      else if 0xC2 \<le> x \<and> x \<le> 0xDF then
        (case bs of
           [] \<Rightarrow> [0xFFFD]
         | c1 # r1 \<Rightarrow>
             if in_range 0x80 0xBF c1
             then code_point_units ((x - 0xC0) * 0x40 + (unat c1 - 0x80)) @ utf8_decode r1
             else 0xFFFD # utf8_decode bs)
      else if 0xE0 \<le> x \<and> x \<le> 0xEF then
        (case bs of
           [] \<Rightarrow> [0xFFFD]
         | c1 # r1 \<Rightarrow>
             if in_range (if x = 0xE0 then 0xA0 else 0x80) (if x = 0xED then 0x9F else 0xBF) c1
             then (case r1 of
                     [] \<Rightarrow> [0xFFFD]
                   | c2 # r2 \<Rightarrow>
                       if in_range 0x80 0xBF c2
                       then code_point_units
                              ((x - 0xE0) * 0x1000 + (unat c1 - 0x80) * 0x40 + (unat c2 - 0x80))
                            @ utf8_decode r2
                       else 0xFFFD # utf8_decode r1)
             else 0xFFFD # utf8_decode bs)
      else if 0xF0 \<le> x \<and> x \<le> 0xF4 then
        (case bs of
           [] \<Rightarrow> [0xFFFD]
         | c1 # r1 \<Rightarrow>
             if in_range (if x = 0xF0 then 0x90 else 0x80) (if x = 0xF4 then 0x8F else 0xBF) c1
             then (case r1 of
                     [] \<Rightarrow> [0xFFFD]
                   | c2 # r2 \<Rightarrow>
                       if in_range 0x80 0xBF c2
                       then (case r2 of
                               [] \<Rightarrow> [0xFFFD]
                             | c3 # r3 \<Rightarrow>
                                 if in_range 0x80 0xBF c3
                                 then code_point_units
                                        ((x - 0xF0) * 0x40000 + (unat c1 - 0x80) * 0x1000
                                         + (unat c2 - 0x80) * 0x40 + (unat c3 - 0x80))
                                      @ utf8_decode r3
                                 else 0xFFFD # utf8_decode r2)
                       else 0xFFFD # utf8_decode r1)
             else 0xFFFD # utf8_decode bs)
      else 0xFFFD # utf8_decode bs)"

text \<open>The UTF-8 bytes of a code point.\<close>

definition encode_code_point :: "nat \<Rightarrow> byte list" where
  "encode_code_point cp =
     (if cp < 0x80 then [of_nat cp]
      else if cp < 0x800 then [of_nat (0xC0 + cp div 0x40), of_nat (0x80 + cp mod 0x40)]
      else if cp < 0x10000
      then [of_nat (0xE0 + cp div 0x1000), of_nat (0x80 + cp div 0x40 mod 0x40),
            of_nat (0x80 + cp mod 0x40)]
      else [of_nat (0xF0 + cp div 0x40000), of_nat (0x80 + cp div 0x1000 mod 0x40),
            of_nat (0x80 + cp div 0x40 mod 0x40), of_nat (0x80 + cp mod 0x40)])"

definition high_surrogate :: "code_unit \<Rightarrow> bool" where
  "high_surrogate u \<longleftrightarrow> 0xD800 \<le> unat u \<and> unat u \<le> 0xDBFF"

definition low_surrogate :: "code_unit \<Rightarrow> bool" where
  "low_surrogate u \<longleftrightarrow> 0xDC00 \<le> unat u \<and> unat u \<le> 0xDFFF"

text \<open>
  The encoder behind \<open>fs.writeFileSync(path, string)\<close>: a surrogate pair is one code
  point, a surrogate without its partner is written as U+FFFD (bytes EF BF BD).
\<close>

fun utf8_encode :: "jsstring \<Rightarrow> byte list" where
  "utf8_encode [] = []"
| "utf8_encode (u # us) =
     (if high_surrogate u then
        (case us of
           [] \<Rightarrow> [0xEF, 0xBF, 0xBD]
         | l # r \<Rightarrow>
             if low_surrogate l
             then encode_code_point
                    (0x10000 + (unat u - 0xD800) * 0x400 + (unat l - 0xDC00)) @ utf8_encode r
             else [0xEF, 0xBF, 0xBD] @ utf8_encode us)
      else if low_surrogate u then [0xEF, 0xBF, 0xBD] @ utf8_encode us
      else encode_code_point (unat u) @ utf8_encode us)"

text \<open>
  Well-formed UTF-8 (Unicode Standard, table 3-7): every byte belongs to a complete
  sequence of one to four bytes for a code point, in its shortest form.
\<close>

fun well_formed_utf8 :: "byte list \<Rightarrow> bool" where
  "well_formed_utf8 [] = True"
| "well_formed_utf8 (b # bs) =
     (let x = unat b in
      if x < 0x80 then well_formed_utf8 bs
      else if 0xC2 \<le> x \<and> x \<le> 0xDF then
        (case bs of
           c1 # r1 \<Rightarrow> in_range 0x80 0xBF c1 \<and> well_formed_utf8 r1
         | _ \<Rightarrow> False)
      else if 0xE0 \<le> x \<and> x \<le> 0xEF then
        (case bs of
           c1 # c2 # r2 \<Rightarrow>
             in_range (if x = 0xE0 then 0xA0 else 0x80) (if x = 0xED then 0x9F else 0xBF) c1
             \<and> in_range 0x80 0xBF c2 \<and> well_formed_utf8 r2
         | _ \<Rightarrow> False)
      else if 0xF0 \<le> x \<and> x \<le> 0xF4 then
        (case bs of
           c1 # c2 # c3 # r3 \<Rightarrow>
             in_range (if x = 0xF0 then 0x90 else 0x80) (if x = 0xF4 then 0x8F else 0xBF) c1
             \<and> in_range 0x80 0xBF c2 \<and> in_range 0x80 0xBF c3 \<and> well_formed_utf8 r3
         | _ \<Rightarrow> False)
      else False)"

subsection \<open>The regular expressions of the text patcher\<close>

text \<open>
  The three expressions of \<open>modifyAppConfigJs\<close> are sequences of literal characters and
  one \<open>\s*\<close>; the single capture group encloses the whole expression, so \<open>$1\<close> is the
  whole match. \<open>rx_match r s\<close> is the length of the match of \<open>r\<close> that starts at the head
  of \<open>s\<close>, with the greedy, backtracking star of JavaScript; \<open>rx_exec r s\<close> is the
  index and length of the leftmost match, as \<open>RegExp.prototype.exec\<close> finds it.
\<close>

datatype rx_atom = Chr code_unit | SpaceStar

type_synonym regex = "rx_atom list"

fun rx_match :: "regex \<Rightarrow> jsstring \<Rightarrow> nat option" where
  "rx_match [] s = Some 0"
| "rx_match (Chr c # r) [] = None"
| "rx_match (Chr c # r) (x # xs) =
     (if x = c then map_option Suc (rx_match r xs) else None)"
| "rx_match (SpaceStar # r) [] = rx_match r []"
| "rx_match (SpaceStar # r) (x # xs) =
     (if is_space x
      then (case rx_match (SpaceStar # r) xs of
              Some n \<Rightarrow> Some (Suc n)
            | None \<Rightarrow> rx_match r (x # xs))
      else rx_match r (x # xs))"

fun rx_exec :: "regex \<Rightarrow> jsstring \<Rightarrow> (nat \<times> nat) option" where
  "rx_exec r [] = map_option (Pair 0) (rx_match r [])"
| "rx_exec r (x # xs) =
     (case rx_match r (x # xs) of
        Some n \<Rightarrow> Some (0, n)
      | None \<Rightarrow> map_option (\<lambda>(i, n). (Suc i, n)) (rx_exec r xs))"

definition RegExp_test :: "regex \<Rightarrow> jsstring \<Rightarrow> bool" where
  "RegExp_test r s \<longleftrightarrow> rx_exec r s \<noteq> None"

text \<open>
  A replacement string is a sequence of references to group 1 (\<open>$1\<close>) and of literal
  text. The replacement strings of the source hold no other \<open>$\<close>: the colour space
  spliced into them is \<open>displayP3\<close> or \<open>SRGB\<close>.
\<close>

datatype repl_part = Group1 | Text jsstring

fun expand :: "repl_part list \<Rightarrow> jsstring \<Rightarrow> jsstring" where
  "expand [] m = []"
| "expand (Group1 # ps) m = m @ expand ps m"
| "expand (Text t # ps) m = t @ expand ps m"

text \<open>\<open>s.replace(r, replacement)\<close> for an expression without the \<open>g\<close> flag: the leftmost
  match only.\<close>

definition String_replace :: "jsstring \<Rightarrow> regex \<Rightarrow> repl_part list \<Rightarrow> jsstring" where
  "String_replace s r replacement =
     (case rx_exec r s of
        None \<Rightarrow> s
      | Some (i, n) \<Rightarrow>
          take i s @ expand replacement (take n (drop i s)) @ drop (i + n) s)"

definition pluginsArrayRegex :: regex where
  \<open>pluginsArrayRegex = map Chr (lit ''plugins:'') @ [SpaceStar, Chr (of_char CHR ''['')]\<close>

definition pluginsArrayJsonRegex :: regex where
  \<open>pluginsArrayJsonRegex =
     map Chr (lit ''"plugins":'') @ [SpaceStar, Chr (of_char CHR ''['')]\<close>

definition expoObjectRegex :: regex where
  \<open>expoObjectRegex = map Chr (lit ''expo:'') @ [SpaceStar, Chr (of_char CHR ''{'')]\<close>


subsection \<open>Values\<close>

datatype ColorSpace = displayP3 | SRGB

fun colorSpace_text :: "ColorSpace \<Rightarrow> jsstring" where
  "colorSpace_text displayP3 = lit ''displayP3''"
| "colorSpace_text SRGB = lit ''SRGB''"

text \<open>
  A number read from JSON is a double: a rational number, negative zero, or an infinity
  (for a literal beyond the range of the doubles); it is never NaN.
\<close>

datatype jsnum = Finite rat | NegZero | PosInfinity | NegInfinity

text \<open>
  The values that \<open>JSON.parse\<close> returns and that the patcher works on. An array is an
  object too: besides its elements it can be given named properties (second argument of
  \<open>JArr\<close>), which \<open>JSON.parse\<close> never creates and \<open>JSON.stringify\<close> never writes. The
  properties of an object are kept in the order in which \<open>JSON.stringify\<close> and
  \<open>Object.keys\<close> enumerate them.
\<close>

datatype jsval =
    JNull
  | JBool bool
  | JNum jsnum
  | JStr jsstring
  | JArr "jsval list" "(jsstring \<times> jsval) list"
  | JObj "(jsstring \<times> jsval) list"

text \<open>
  \<open>JSON_parse rt s\<close> is \<open>JSON.parse(s)\<close>, \<open>None\<close> where it throws a SyntaxError;
  \<open>JSON_stringify rt v n\<close> is \<open>JSON.stringify(v, null, n)\<close>.
\<close>

record runtime =
  JSON_parse :: "jsstring \<Rightarrow> jsval option"
  JSON_stringify :: "jsval \<Rightarrow> nat \<Rightarrow> jsstring"

datatype js_exn = ENOENT | SyntaxError | TypeError

text \<open>Truthiness: of the numbers, the two zeros are not truthy.\<close>

fun truthy :: "jsval \<Rightarrow> bool" where
  "truthy JNull = False"
| "truthy (JBool b) = b"
| "truthy (JNum r) = (r \<noteq> Finite 0 \<and> r \<noteq> NegZero)"
| "truthy (JStr s) = (s \<noteq> [])"
| "truthy (JArr xs extra) = True"
| "truthy (JObj kvs) = True"

text \<open>
  \<open>obj.k\<close> for the property names \<open>expo\<close> and \<open>plugins\<close>, which no built-in prototype
  defines: reading from \<open>null\<close> throws, a boolean, number or string has no such
  property.
\<close>

fun get_prop :: "jsval \<Rightarrow> jsstring \<Rightarrow> js_exn + jsval option" where
  "get_prop JNull k = Inl TypeError"
| "get_prop (JBool b) k = Inr None"
| "get_prop (JNum r) k = Inr None"
| "get_prop (JStr s) k = Inr None"
| "get_prop (JArr xs extra) k = Inr (map_of extra k)"
| "get_prop (JObj kvs) k = Inr (map_of kvs k)"

text \<open>
  The object with property \<open>k\<close> holding \<open>v\<close>: in place when the property exists, as
  the last property otherwise (the names that the program sets, \<open>expo\<close> and \<open>plugins\<close>,
  are not array indices, which would come first).
\<close>

fun with_prop :: "jsval \<Rightarrow> jsstring \<Rightarrow> jsval \<Rightarrow> jsval" where
  "with_prop (JArr xs extra) k v = JArr xs (AList.update k v extra)"
| "with_prop (JObj kvs) k v = JObj (AList.update k v kvs)"
| "with_prop JNull k v = JNull"
| "with_prop (JBool b) k v = JBool b"
| "with_prop (JNum r) k v = JNum r"
| "with_prop (JStr s) k v = JStr s"

text \<open>
  \<open>obj.k = v\<close>. The file is a module, hence strict code: assigning a property of a
  primitive value throws a TypeError. (In sloppy code the assignment would be dropped
  and the next property access, on \<open>undefined\<close>, would throw the TypeError.)
\<close>

fun set_prop :: "jsval \<Rightarrow> jsstring \<Rightarrow> jsval \<Rightarrow> js_exn + jsval" where
  "set_prop (JArr xs extra) k v = Inr (with_prop (JArr xs extra) k v)"
| "set_prop (JObj kvs) k v = Inr (with_prop (JObj kvs) k v)"
| "set_prop JNull k v = Inl TypeError"
| "set_prop (JBool b) k v = Inl TypeError"
| "set_prop (JNum r) k v = Inl TypeError"
| "set_prop (JStr s) k v = Inl TypeError"

text \<open>\<open>xs.push(x)\<close>: only an array has a callable \<open>push\<close>; calling what a parsed object,
  string, number or boolean has under that name throws a TypeError.\<close>

fun push :: "jsval \<Rightarrow> jsval \<Rightarrow> js_exn + jsval" where
  "push (JArr xs extra) x = Inr (JArr (xs @ [x]) extra)"
| "push JNull x = Inl TypeError"
| "push (JBool b) x = Inl TypeError"
| "push (JNum r) x = Inl TypeError"
| "push (JStr s) x = Inl TypeError"
| "push (JObj kvs) x = Inl TypeError"

definition bindE :: "'e + 'a \<Rightarrow> ('a \<Rightarrow> 'e + 'b) \<Rightarrow> 'e + 'b" where
  "bindE m f = (case m of Inl e \<Rightarrow> Inl e | Inr x \<Rightarrow> f x)"

text \<open>
  The idiom \<open>if (!obj.k) { obj.k = dflt; }\<close> of lines 76 to 82: the object afterwards,
  and the value that \<open>obj.k\<close> then yields. \<open>!obj.k\<close> holds when the property is
  \<open>undefined\<close> (here \<open>None\<close>) or its value is not truthy.
\<close>

definition ensure_prop :: "jsval \<Rightarrow> jsstring \<Rightarrow> jsval \<Rightarrow> js_exn + (jsval \<times> jsval)" where
  "ensure_prop obj k dflt =
     bindE (get_prop obj k) (\<lambda>cur.
       case cur of
         None \<Rightarrow> bindE (set_prop obj k dflt) (\<lambda>obj'. Inr (obj', dflt))
       | Some v \<Rightarrow>
           if truthy v then Inr (obj, v)
           else bindE (set_prop obj k dflt) (\<lambda>obj'. Inr (obj', dflt)))"

subsection \<open>isPluginInConfig (lines 54 to 66)\<close>

definition plugin_id :: jsstring where
  "plugin_id = lit ''expo-color-space-plugin''"

text \<open>The callback given to \<open>plugins.some\<close>.\<close>

fun plugin_matches :: "jsval \<Rightarrow> bool" where
  "plugin_matches (JStr s) = (s = plugin_id)"
| "plugin_matches (JArr [] extra) = False"
| "plugin_matches (JArr (first # others) extra) = (first = JStr plugin_id)"
| "plugin_matches JNull = False"
| "plugin_matches (JBool b) = False"
| "plugin_matches (JNum r) = False"
| "plugin_matches (JObj kvs) = False"

fun isPluginInConfig :: "jsval \<Rightarrow> bool" where
  "isPluginInConfig (JArr plugins extra) = list_ex plugin_matches plugins"
| "isPluginInConfig JNull = False"
| "isPluginInConfig (JBool b) = False"
| "isPluginInConfig (JNum r) = False"
| "isPluginInConfig (JStr s) = False"
| "isPluginInConfig (JObj kvs) = False"


subsection \<open>The process and its effects\<close>

datatype apply_error = FailedToModify string js_exn

text \<open>
  One constructor for each text the tool prints:
  \<^item> \<open>FoundConfigFile f\<close>: "Found config file:" and the base name (line 175);
  \<^item> \<open>AlreadyConfigured f\<close>: "Plugin is already configured in" \<open>f\<close> (lines 86, 111);
  \<^item> \<open>CouldNotModify f\<close>, \<open>PleaseAddManually\<close>, \<open>ManualEntry t\<close>: lines 151 to 153, the
    last being the text \<open>t\<close> itself;
  \<^item> \<open>SuccessfullyAdded c\<close>, \<open>NextSteps i\<close>: lines 191 to 194;
  \<^item> \<open>PromptLine i\<close>: lines 40 to 42;
  \<^item> \<open>NoConfigFileFound\<close>, \<open>RunFromProjectRoot\<close>: lines 170, 171;
  \<^item> \<open>ErrorMessage e\<close>: "Error:" and the message of \<open>e\<close>, "Failed to modify",
    the file name and the error caught (lines 98, 157, 198);
  \<^item> \<open>InvalidColorSpace\<close>: line 220; \<open>UsageLine i\<close>: lines 227 to 234.
\<close>

datatype message =
    FoundConfigFile string
  | AlreadyConfigured string
  | CouldNotModify string
  | PleaseAddManually
  | ManualEntry jsstring
  | SuccessfullyAdded ColorSpace
  | NextSteps nat
  | PromptLine nat
  | NoConfigFileFound
  | RunFromProjectRoot
  | ErrorMessage apply_error
  | InvalidColorSpace
  | UsageLine nat

text \<open>\<open>WriteFileSync f s\<close> records the string \<open>s\<close> given to \<open>fs.writeFileSync\<close>.\<close>

datatype event =
    ExistsSync string
  | ReadFileSync string
  | WriteFileSync string jsstring
  | ConsoleLog message
  | ConsoleError message
  | Question

record world =
  files :: "string \<rightharpoonup> byte list"
  trace :: "event list"

datatype outcome = Exited nat | Waiting

definition emit :: "event \<Rightarrow> world \<Rightarrow> world" where
  "emit e w = w\<lparr>trace := trace w @ [e]\<rparr>"

definition console_log :: "message \<Rightarrow> world \<Rightarrow> world" where
  "console_log m w = emit (ConsoleLog m) w"

definition console_error :: "message \<Rightarrow> world \<Rightarrow> world" where
  "console_error m w = emit (ConsoleError m) w"

definition existsSync :: "string \<Rightarrow> world \<Rightarrow> bool \<times> world" where
  "existsSync f w = (files w f \<noteq> None, emit (ExistsSync f) w)"

text \<open>\<open>fs.readFileSync(f, 'utf8')\<close>: the bytes of the file, decoded.\<close>

definition readFileSync :: "string \<Rightarrow> world \<Rightarrow> (js_exn + jsstring) \<times> world" where
  "readFileSync f w =
     (case files w f of
        None \<Rightarrow> (Inl ENOENT, emit (ReadFileSync f) w)
      | Some bytes \<Rightarrow> (Inr (utf8_decode bytes), emit (ReadFileSync f) w))"

text \<open>\<open>fs.writeFileSync(f, content)\<close>: the file then holds the bytes of the string.\<close>

definition writeFileSync :: "string \<Rightarrow> jsstring \<Rightarrow> world \<Rightarrow> world" where
  "writeFileSync f content w =
     emit (WriteFileSync f content) (w\<lparr>files := (files w)(f \<mapsto> utf8_encode content)\<rparr>)"

text \<open>\<open>path.extname\<close> of a file name: from its last dot to its end.\<close>

definition extname :: "string \<Rightarrow> string" where
  "extname f =
     (if CHR ''.'' \<in> set f
      then CHR ''.'' # rev (takeWhile (\<lambda>c. c \<noteq> CHR ''.'') (rev f))
      else [])"

subsection \<open>detectConfigFile (lines 17 to 28)\<close>

fun firstExisting :: "string list \<Rightarrow> world \<Rightarrow> string option \<times> world" where
  "firstExisting [] w = (None, w)"
| "firstExisting (file # rest) w =
     (case existsSync file w of
        (found, w') \<Rightarrow> if found then (Some file, w') else firstExisting rest w')"

definition configFiles :: "string list" where
  "configFiles = [''app.json'', ''app.config.js'', ''app.config.ts'']"

definition detectConfigFile :: "world \<Rightarrow> string option \<times> world" where
  "detectConfigFile w = firstExisting configFiles w"

subsection \<open>promptColorSpace (lines 33 to 49)\<close>

text \<open>
  What the standard input of the process holds when the question is asked: a line
  (\<open>Line answer\<close>); nothing more, the input being at its end (\<open>Closed\<close>); or nothing
  yet and nothing later, the input staying open (\<open>Silent\<close>).
\<close>

datatype stdin = Line jsstring | Closed | Silent

text \<open>
  The state of an awaited promise: resolved with a value; never resolved with nothing
  left for the process to wait for, which then ends with exit code 0; never resolved
  with the process waiting on.
\<close>

datatype 'a awaited = Resolved 'a | Abandoned | Pending

text \<open>
  The callback of \<open>rl.question\<close> (lines 44 to 47) runs when a line arrives, and only
  then: at the end of its input \<open>readline\<close> closes without calling it.
\<close>

definition promptColorSpace :: "stdin \<Rightarrow> world \<Rightarrow> ColorSpace awaited \<times> world" where
  "promptColorSpace input w =
     (let w1 = console_log (PromptLine 0) w;
          w2 = console_log (PromptLine 1) w1;
          w3 = console_log (PromptLine 2) w2;
          w4 = emit Question w3
      in (case input of
            Line answer \<Rightarrow> Resolved (if trim answer = lit ''2'' then SRGB else displayP3)
          | Closed \<Rightarrow> Abandoned
          | Silent \<Rightarrow> Pending,
          w4))"

subsection \<open>modifyAppJson (lines 71 to 100)\<close>

definition k_expo :: jsstring where
  "k_expo = lit ''expo''"

definition k_plugins :: jsstring where
  "k_plugins = lit ''plugins''"

text \<open>The entry pushed in line 91: \<open>['expo-color-space-plugin', { colorSpace }]\<close>.\<close>

definition plugin_entry :: "ColorSpace \<Rightarrow> jsval" where
  "plugin_entry colorSpace =
     JArr [JStr (lit ''expo-color-space-plugin''),
           JObj [(lit ''colorSpace'', JStr (colorSpace_text colorSpace))]] []"

text \<open>
  Lines 76 to 91 on the parsed document: \<open>Inr None\<close> when the plugin is found (nothing
  is to be written), \<open>Inr (Some config')\<close> with the document after the \<open>push\<close>, \<open>Inl\<close> when
  a statement throws. The \<open>push\<close> changes the array in place; the document reached
  through \<open>config\<close> afterwards is rebuilt with \<open>with_prop\<close>.
\<close>

definition patchConfig :: "jsval \<Rightarrow> ColorSpace \<Rightarrow> js_exn + jsval option" where
  "patchConfig config colorSpace =
     bindE (ensure_prop config k_expo (JObj [])) (\<lambda>(config1, expo).
     bindE (ensure_prop expo k_plugins (JArr [] [])) (\<lambda>(expo1, plugins).
       if isPluginInConfig plugins then Inr None
       else bindE (push plugins (plugin_entry colorSpace)) (\<lambda>plugins'.
              Inr (Some (with_prop config1 k_expo (with_prop expo1 k_plugins plugins'))))))"

text \<open>Line 94 writes \<open>JSON.stringify(config, null, 2) + '\n'\<close>.\<close>

definition modifyAppJson ::
  "runtime \<Rightarrow> string \<Rightarrow> ColorSpace \<Rightarrow> world \<Rightarrow> (apply_error + bool) \<times> world" where
  "modifyAppJson rt filePath colorSpace w =
     (case readFileSync filePath w of
        (Inl e, w1) \<Rightarrow> (Inl (FailedToModify ''app.json'' e), w1)
      | (Inr content, w1) \<Rightarrow>
          (case JSON_parse rt content of
             None \<Rightarrow> (Inl (FailedToModify ''app.json'' SyntaxError), w1)
           | Some config \<Rightarrow>
               (case patchConfig config colorSpace of
                  Inl e \<Rightarrow> (Inl (FailedToModify ''app.json'' e), w1)
                | Inr None \<Rightarrow> (Inr False, console_log (AlreadyConfigured ''app.json'') w1)
                | Inr (Some config') \<Rightarrow>
                    (Inr True,
                     writeFileSync filePath (JSON_stringify rt config' 2 @ LF) w1))))"

subsection \<open>modifyAppConfigJs (lines 105 to 159)\<close>

definition pluginEntry :: "ColorSpace \<Rightarrow> jsstring" where
  \<open>pluginEntry colorSpace =
     lit ''["expo-color-space-plugin", { "colorSpace": "'' @ colorSpace_text colorSpace
       @ lit ''" }]''\<close>

text \<open>The replacement strings of lines 123 and 134, and of line 145.\<close>

definition firstElementReplacement :: "ColorSpace \<Rightarrow> repl_part list" where
  "firstElementReplacement colorSpace =
     [Group1, Text (lit ''\<newline>      '' @ pluginEntry colorSpace @ lit '','')]"

definition newPluginsReplacement :: "ColorSpace \<Rightarrow> repl_part list" where
  "newPluginsReplacement colorSpace =
     [Group1, Text (lit ''\<newline>    plugins: [\<newline>      '' @ pluginEntry colorSpace
                      @ lit ''\<newline>    ],'')]"

definition modifyAppConfigJs ::
  "string \<Rightarrow> ColorSpace \<Rightarrow> world \<Rightarrow> (apply_error + bool) \<times> world" where
  "modifyAppConfigJs filePath colorSpace w =
     (case readFileSync filePath w of
        (Inl e, w1) \<Rightarrow> (Inl (FailedToModify filePath e), w1)
      | (Inr content, w1) \<Rightarrow>
          if String_includes content (lit ''expo-color-space-plugin'')
          then (Inr False, console_log (AlreadyConfigured filePath) w1)
          else if RegExp_test pluginsArrayRegex content
          then (Inr True,
                writeFileSync filePath
                  (String_replace content pluginsArrayRegex
                     (firstElementReplacement colorSpace)) w1)
          else if RegExp_test pluginsArrayJsonRegex content
          then (Inr True,
                writeFileSync filePath
                  (String_replace content pluginsArrayJsonRegex
                     (firstElementReplacement colorSpace)) w1)
          else if RegExp_test expoObjectRegex content
          then (Inr True,
                writeFileSync filePath
                  (String_replace content expoObjectRegex
                     (newPluginsReplacement colorSpace)) w1)
          else (Inr False,
                console_log (ManualEntry (lit ''  '' @ pluginEntry colorSpace))
                  (console_log PleaseAddManually
                     (console_log (CouldNotModify filePath) w1))))"

subsection \<open>apply (lines 164 to 201)\<close>

text \<open>
  \<open>option\<close> is \<open>options.colorSpace\<close>, \<open>None\<close> when the option is absent. Line 178,
  \<open>options.colorSpace || await promptColorSpace()\<close>: a colour space given as option is a
  non-empty string, hence truthy, and the question is asked only without it.
\<close>

definition resolveColorSpace ::
  "ColorSpace option \<Rightarrow> stdin \<Rightarrow> world \<Rightarrow> ColorSpace awaited \<times> world" where
  "resolveColorSpace option input w =
     (case option of
        Some c \<Rightarrow> (Resolved c, w)
      | None \<Rightarrow> promptColorSpace input w)"

text \<open>Lines 181 to 188: the patcher is chosen by the extension of the file.\<close>

definition modifyConfig ::
  "runtime \<Rightarrow> string \<Rightarrow> ColorSpace \<Rightarrow> world \<Rightarrow> (apply_error + bool) \<times> world" where
  "modifyConfig rt configFile colorSpace w =
     (let ext = extname configFile
      in if ext = ''.json'' then modifyAppJson rt configFile colorSpace w
         else if ext = ''.js'' \<or> ext = ''.ts'' then modifyAppConfigJs configFile colorSpace w
         else (Inr False, w))"

text \<open>
  Lines 190 to 200: the report of success, and the \<open>catch\<close> clause for what a patcher
  throws. A process that reaches the end of \<open>apply\<close> ends with exit code 0.
\<close>

definition report :: "ColorSpace \<Rightarrow> (apply_error + bool) \<times> world \<Rightarrow> outcome \<times> world" where
  "report colorSpace r =
     (case r of
        (Inl err, w) \<Rightarrow> (Exited 1, console_error (ErrorMessage err) w)
      | (Inr modified, w) \<Rightarrow>
          if modified
          then (Exited 0,
                console_log (NextSteps 2)
                  (console_log (NextSteps 1)
                     (console_log (NextSteps 0)
                        (console_log (SuccessfullyAdded colorSpace) w))))
          else (Exited 0, w))"

text \<open>
  The statements after line 178 run once the awaited promise is resolved. When it never
  is, nothing of them runs: the process ends with exit code 0 as soon as it has nothing
  to wait for, or waits.
\<close>

definition apply_cmd ::
  "runtime \<Rightarrow> ColorSpace option \<Rightarrow> stdin \<Rightarrow> world \<Rightarrow> outcome \<times> world" where
  "apply_cmd rt option input w =
     (case detectConfigFile w of
        (None, w1) \<Rightarrow>
          (Exited 1, console_error RunFromProjectRoot (console_error NoConfigFileFound w1))
      | (Some configFile, w1) \<Rightarrow>
          (case resolveColorSpace option input
                  (console_log (FoundConfigFile configFile) w1) of
             (Resolved colorSpace, w2) \<Rightarrow>
               report colorSpace (modifyConfig rt configFile colorSpace w2)
           | (Abandoned, w2) \<Rightarrow> (Exited 0, w2)
           | (Pending, w2) \<Rightarrow> (Waiting, w2)))"

subsection \<open>main (lines 206 to 236)\<close>

definition usage :: "world \<Rightarrow> world" where
  "usage w = w\<lparr>trace := trace w @ map (\<lambda>i. ConsoleLog (UsageLine i)) [0 ..< 8]\<rparr>"

text \<open>\<open>args\<close> is \<open>process.argv.slice(2)\<close>.\<close>

definition main :: "runtime \<Rightarrow> jsstring list \<Rightarrow> stdin \<Rightarrow> world \<Rightarrow> outcome \<times> world" where
  "main rt args input w =
     (if at_index args 0 = Some (lit ''apply'')
      then (case find (\<lambda>arg. prefix (lit ''--colorSpace='') arg) args of
              None \<Rightarrow> apply_cmd rt None input w
            | Some colorSpaceArg \<Rightarrow>
                (let val = at_index (split_on (of_char CHR ''='') colorSpaceArg) 1
                 in if val = Some (lit ''displayP3'') then apply_cmd rt (Some displayP3) input w
                    else if val = Some (lit ''SRGB'') then apply_cmd rt (Some SRGB) input w
                    else (Exited 1, console_error InvalidColorSpace w)))
      else (Exited 0, usage w))"

text \<open>A run of the tool in a directory: the trace starts empty.\<close>

definition start :: "(string \<rightharpoonup> byte list) \<Rightarrow> world" where
  "start fs = \<lparr>files = fs, trace = []\<rparr>"

subsection \<open>The detection rule as the specification words it\<close>

text \<open>
  Section 4.2 of the specification: an entry matches if it is a bare identifier string
  equal to the target, or a two-element structure whose first element equals the
  target identifier.
\<close>

fun bare_or_pair :: "jsval \<Rightarrow> bool" where
  "bare_or_pair (JStr s) = (s = plugin_id)"
| "bare_or_pair (JArr [first, options] extra) = (first = JStr plugin_id)"
| "bare_or_pair (JArr [] extra) = False"
| "bare_or_pair (JArr [a] extra) = False"
| "bare_or_pair (JArr (a # b # c # ds) extra) = False"
| "bare_or_pair JNull = False"
| "bare_or_pair (JBool b) = False"
| "bare_or_pair (JNum r) = False"
| "bare_or_pair (JObj kvs) = False"

subsection \<open>The detection steps as one predicate\<close>

text \<open>
  Whether the patcher chosen for file \<open>f\<close> finds the entry in the text \<open>content\<close> read
  from it: line 85, \<open>isPluginInConfig(config.expo.plugins)\<close> on the parsed document, for
  \<open>app.json\<close>; line 110, \<open>content.includes('expo-color-space-plugin')\<close>, for the code
  formats.
\<close>

definition entry_detected :: "runtime \<Rightarrow> string \<Rightarrow> jsstring \<Rightarrow> bool" where
  "entry_detected rt f content =
     (if extname f = ''.json''
      then (case JSON_parse rt content of
              None \<Rightarrow> False
            | Some config \<Rightarrow>
                (case get_prop config k_expo of
                   Inr (Some expo) \<Rightarrow>
                     (case get_prop expo k_plugins of
                        Inr (Some plugins) \<Rightarrow> isPluginInConfig plugins
                      | _ \<Rightarrow> False)
                 | _ \<Rightarrow> False))
      else String_includes content plugin_id)"

text \<open>\<open>Array.isArray\<close>.\<close>

fun Array_isArray :: "jsval \<Rightarrow> bool" where
  "Array_isArray (JArr xs extra) = True"
| "Array_isArray JNull = False"
| "Array_isArray (JBool b) = False"
| "Array_isArray (JNum r) = False"
| "Array_isArray (JStr s) = False"
| "Array_isArray (JObj kvs) = False"

subsection \<open>Notions used in the statements\<close>

text \<open>
  The colour space that line 178 yields, if it yields one: the option, or else what the
  line entered at the question selects.
\<close>

definition chosenColorSpace :: "ColorSpace option \<Rightarrow> stdin \<Rightarrow> ColorSpace option" where
  "chosenColorSpace option input =
     (case option of
        Some c \<Rightarrow> Some c
      | None \<Rightarrow>
          (case input of
             Line answer \<Rightarrow> Some (if trim answer = lit ''2'' then SRGB else displayP3)
           | Closed \<Rightarrow> None
           | Silent \<Rightarrow> None))"

text \<open>The events of line 178.\<close>

definition asked :: "ColorSpace option \<Rightarrow> event list" where
  "asked option =
     (case option of
        Some c \<Rightarrow> []
      | None \<Rightarrow>
          [ConsoleLog (PromptLine 0), ConsoleLog (PromptLine 1), ConsoleLog (PromptLine 2),
           Question])"

text \<open>The events of \<open>detectConfigFile\<close> that ends with file \<open>f\<close>.\<close>

definition probed :: "string \<Rightarrow> event list" where
  "probed f = map ExistsSync (takeWhile (\<lambda>g. g \<noteq> f) configFiles @ [f])"

subsection \<open>The anchor policy as the specification words it\<close>

text \<open>
  An anchor is a key word, any white space, and an opening bracket. \<open>token_at\<close> is the
  length of the anchor that starts at the head of the text, \<open>token_end\<close> the index just
  after the leftmost anchor in the text.
\<close>

definition token_at :: "jsstring \<Rightarrow> code_unit \<Rightarrow> jsstring \<Rightarrow> nat option" where
  "token_at keyword bracket s =
     (if prefix keyword s
      then (case dropWhile is_space (drop (length keyword) s) of
              [] \<Rightarrow> None
            | x # xs \<Rightarrow>
                if x = bracket
                then Some (length keyword
                           + length (takeWhile is_space (drop (length keyword) s)) + 1)
                else None)
      else None)"

fun token_end :: "jsstring \<Rightarrow> code_unit \<Rightarrow> jsstring \<Rightarrow> nat option" where
  "token_end keyword bracket [] = None"
| "token_end keyword bracket (c # cs) =
     (case token_at keyword bracket (c # cs) of
        Some n \<Rightarrow> Some n
      | None \<Rightarrow> map_option Suc (token_end keyword bracket cs))"

text \<open>The fixed template of the entry, for each of the two colour spaces.\<close>

fun entry_template :: "ColorSpace \<Rightarrow> jsstring" where
  \<open>entry_template displayP3 =
     lit ''["expo-color-space-plugin", { "colorSpace": "displayP3" }]''\<close>
| \<open>entry_template SRGB =
     lit ''["expo-color-space-plugin", { "colorSpace": "SRGB" }]''\<close>

text \<open>
  Sections 4.4 and 9 of the specification: an ordered list of rules, each an anchor with
  the text to insert right after it; the first rule whose anchor occurs wins. The
  result is the insertion point and the text: the entry as a new first element, on a
  line of its own and followed by a comma, after the opening of a plugins list; a new
  plugins list that holds the entry, followed by a comma, after the opening of the
  \<open>expo\<close> object.
\<close>

definition first_element_text :: "ColorSpace \<Rightarrow> jsstring" where
  "first_element_text colorSpace = lit ''\<newline>      '' @ entry_template colorSpace @ lit '',''"

definition new_declaration_text :: "ColorSpace \<Rightarrow> jsstring" where
  "new_declaration_text colorSpace =
     lit ''\<newline>    plugins: [\<newline>      '' @ entry_template colorSpace @ lit ''\<newline>    ],''"

definition matched_anchor :: "ColorSpace \<Rightarrow> jsstring \<Rightarrow> (nat \<times> jsstring) option" where
  \<open>matched_anchor colorSpace s =
     (case token_end (lit ''plugins:'') (of_char CHR ''['') s of
        Some k \<Rightarrow> Some (k, first_element_text colorSpace)
      | None \<Rightarrow>
          (case token_end (lit ''"plugins":'') (of_char CHR ''['') s of
             Some k \<Rightarrow> Some (k, first_element_text colorSpace)
           | None \<Rightarrow>
               (case token_end (lit ''expo:'') (of_char CHR ''{'') s of
                  Some k \<Rightarrow> Some (k, new_declaration_text colorSpace)
                | None \<Rightarrow> None)))\<close>

subsection \<open>Sample inputs\<close>

text \<open>
  A runtime known on a few texts only; each row is what \<open>JSON.parse\<close> and
  \<open>JSON.stringify(_, null, 2)\<close> of Node give. Every other text is taken as malformed by
  this sample, which is used on the texts below and on malformed ones only.
\<close>

definition scenario_source :: string where
  \<open>scenario_source = ''{"expo":{"name":"X"}}''\<close>

definition scenario_doc :: jsval where
  "scenario_doc = JObj [(lit ''expo'', JObj [(lit ''name'', JStr (lit ''X''))])]"

definition patched_doc :: jsval where
  "patched_doc =
     JObj [(lit ''expo'',
            JObj [(lit ''name'', JStr (lit ''X'')),
                  (lit ''plugins'', JArr [plugin_entry SRGB] [])])]"

definition patched_source :: string where
  \<open>patched_source =
     ''{\<newline>  "expo": {\<newline>    "name": "X",\<newline>    "plugins": [\<newline>      [\<newline>        "expo-color-space-plugin",\<newline>        {\<newline>          "colorSpace": "SRGB"\<newline>        }\<newline>      ]\<newline>    ]\<newline>  }\<newline>}\<newline>''\<close>

definition empty_plugins_source :: string where
  \<open>empty_plugins_source = ''{"expo":{"name":"X","plugins":""}}''\<close>

definition empty_plugins_doc :: jsval where
  "empty_plugins_doc =
     JObj [(lit ''expo'', JObj [(lit ''name'', JStr (lit ''X'')), (lit ''plugins'', JStr [])])]"

definition string_plugins_source :: string where
  \<open>string_plugins_source = ''{"expo":{"plugins":"expo-font"}}''\<close>

definition string_plugins_doc :: jsval where
  "string_plugins_doc = JObj [(lit ''expo'', JObj [(lit ''plugins'', JStr (lit ''expo-font''))])]"

definition malformed_source :: string where
  \<open>malformed_source = ''{"expo": {''\<close>

definition sample_parse :: "jsstring \<Rightarrow> jsval option" where
  "sample_parse =
     map_of [(lit scenario_source, scenario_doc),
             (lit patched_source, patched_doc),
             (lit empty_plugins_source, empty_plugins_doc),
             (lit string_plugins_source, string_plugins_doc)]"

definition sample_stringify :: "jsval \<Rightarrow> nat \<Rightarrow> jsstring" where
  "sample_stringify v n =
     (if v = patched_doc \<and> n = 2 then butlast (lit patched_source) else lit ''null'')"

definition sample_runtime :: runtime where
  "sample_runtime = \<lparr>JSON_parse = sample_parse, JSON_stringify = sample_stringify\<rparr>"

definition js_config_source :: string where
  "js_config_source = ''module.exports = { expo: { plugins: [] } }''"

definition js_patched_source :: string where
  \<open>js_patched_source =
     ''module.exports = { expo: { plugins: [\<newline>      ["expo-color-space-plugin", { "colorSpace": "displayP3" }],] } }''\<close>

definition quoted_config_source :: string where
  \<open>quoted_config_source = ''module.exports = { "expo": { "plugins": ["expo-font"] } }''\<close>

definition quoted_patched_source :: string where
  \<open>quoted_patched_source =
     ''module.exports = { "expo": { "plugins": [\<newline>      ["expo-color-space-plugin", { "colorSpace": "SRGB" }],"expo-font"] } }''\<close>

definition bare_config_source :: string where
  \<open>bare_config_source = ''export default { expo: { name: "X" } };''\<close>

definition bare_patched_source :: string where
  \<open>bare_patched_source =
     ''export default { expo: {\<newline>    plugins: [\<newline>      ["expo-color-space-plugin", { "colorSpace": "SRGB" }]\<newline>    ], name: "X" } };''\<close>

definition ts_config_source :: string where
  "ts_config_source = ''export default config;''"

text \<open>
  A file in Latin-1: the byte E9 of its first line is not UTF-8. And the same file in
  UTF-8.
\<close>

definition latin1_config :: "byte list" where
  "latin1_config = ascii ''// caf'' @ [0xE9] @ ascii (CHR 0x0A # js_config_source)"

definition latin1_patched :: "byte list" where
  "latin1_patched = ascii ''// caf'' @ [0xEF, 0xBF, 0xBD] @ ascii (CHR 0x0A # js_patched_source)"

definition utf8_config :: "byte list" where
  "utf8_config = ascii ''// caf'' @ [0xC3, 0xA9] @ ascii (CHR 0x0A # js_config_source)"

definition utf8_patched :: "byte list" where
  "utf8_patched = ascii ''// caf'' @ [0xC3, 0xA9] @ ascii (CHR 0x0A # js_patched_source)"

text \<open>The text of these files, with the code unit \<open>u\<close> after \<open>caf\<close>, before and after the patch.\<close>

definition commented_config :: "code_unit \<Rightarrow> jsstring" where
  "commented_config u = lit ''// caf'' @ u # lit (CHR 0x0A # js_config_source)"

definition commented_patched :: "code_unit \<Rightarrow> jsstring" where
  "commented_patched u = lit ''// caf'' @ u # lit (CHR 0x0A # js_patched_source)"

section \<open>Properties\<close>

subsection \<open>Detection in the plugins list\<close>

lemma plugin_matches_iff:
  "plugin_matches p \<longleftrightarrow>
     p = JStr plugin_id \<or> (\<exists>others extra. p = JArr (JStr plugin_id # others) extra)"
  by (cases p rule: plugin_matches.cases) auto

text \<open>
  C8, as the code has it. A plugins list is detected as holding the entry if and only
  if one of its elements is the bare identifier string, or an array of one or more
  elements whose first element is the identifier: neither the length of that array
  nor what follows the identifier in it (the options) is looked at.
\<close>

theorem detection_rule:
  "isPluginInConfig (JArr plugins extra) \<longleftrightarrow>
     (\<exists>p \<in> set plugins.
        p = JStr plugin_id \<or> (\<exists>others extra'. p = JArr (JStr plugin_id # others) extra'))"
  by (simp add: list_ex_iff plugin_matches_iff)

theorem detection_rule_witness:
  "isPluginInConfig
     (JArr [JStr (lit ''expo-router''),
            JArr [JStr plugin_id, JObj [(lit ''colorSpace'', JStr (lit ''anything''))]] []] [])"
  using detection_rule
    [of "[JStr (lit ''expo-router''),
          JArr [JStr plugin_id, JObj [(lit ''colorSpace'', JStr (lit ''anything''))]] []]" "[]"]
  by simp

text \<open>
  C8 as stated fails from right to left of its "if and only if": the list
  \<open>[["expo-color-space-plugin"]]\<close>, whose element has one element, is detected, and
  holds neither the bare string nor a two-element structure.
\<close>

theorem detection_counterexample:
  "isPluginInConfig (JArr [JArr [JStr plugin_id] []] [])
   \<and> \<not> list_ex bare_or_pair [JArr [JStr plugin_id] []]"
  by simp

subsection \<open>The UTF-8 coding\<close>

lemma unat_of_nat16: "n < 0x10000 \<Longrightarrow> unat (of_nat n :: 16 word) = n"
  by (simp add: unat_of_nat)

lemma encode_units:
  assumes "cp < 0x110000" and "\<not> (0xD800 \<le> cp \<and> cp \<le> 0xDFFF)"
  shows "utf8_encode (code_point_units cp @ rest) = encode_code_point cp @ utf8_encode rest"
proof (cases "cp < 0x10000")
  case True
  then show ?thesis
    using assms
    by (auto simp: code_point_units_def high_surrogate_def low_surrogate_def unat_of_nat16)
next
  case False
  define d where "d = cp - 0x10000"
  define hu :: "16 word" where "hu = of_nat (0xD800 + d div 0x400)"
  define lu :: "16 word" where "lu = of_nat (0xDC00 + d mod 0x400)"
  have d: "d < 0x100000" "cp = 0x10000 + d"
    using False assms by (simp_all add: d_def)
  have hi: "unat hu = 0xD800 + d div 0x400"
    unfolding hu_def using d by (intro unat_of_nat16) simp
  have lo: "unat lu = 0xDC00 + d mod 0x400"
    unfolding lu_def by (intro unat_of_nat16) simp
  have units: "code_point_units cp = [hu, lu]"
    using False by (simp only: code_point_units_def hu_def lu_def d_def if_False)
  have "d div 0x400 < 0x400"
    using d by simp
  then have h: "high_surrogate hu" "low_surrogate lu"
    by (simp_all add: high_surrogate_def low_surrogate_def hi lo)
  have "0x10000 + (unat hu - 0xD800) * 0x400 + (unat lu - 0xDC00) = cp"
    by (simp add: hi lo d)
  then show ?thesis
    by (simp add: units h)
qed

lemma of_nat_unat8: "of_nat (unat (b :: 8 word)) = b"
  by simp

lemma encode_one:
  assumes "unat b < 0x80"
  shows "utf8_encode ((ucast b :: 16 word) # rest) = b # utf8_encode rest"
proof -
  have "unat (ucast b :: 16 word) = unat b"
    using assms by (simp add: unsigned_ucast_eq take_bit_nat_eq_self)
  then show ?thesis
    using assms by (simp add: high_surrogate_def low_surrogate_def encode_code_point_def)
qed

lemma encode_two:
  assumes "0xC2 \<le> unat b" "unat b \<le> 0xDF" "in_range 0x80 0xBF c1"
  shows "encode_code_point ((unat b - 0xC0) * 0x40 + (unat c1 - 0x80)) = [b, c1]"
    and "(unat b - 0xC0) * 0x40 + (unat c1 - 0x80) < 0xD800"
proof -
  define p q where "p = unat b - 0xC0" and "q = unat c1 - 0x80"
  have r: "2 \<le> p" "p < 0x20" "q < 0x40" "unat b = 0xC0 + p" "unat c1 = 0x80 + q"
    using assms by (auto simp: p_def q_def in_range_def)
  have bs: "of_nat (0xC0 + p) = b" "of_nat (0x80 + q) = c1"
    using r(4,5) by (metis of_nat_unat8)+
  have f: "0x80 \<le> p * 0x40 + q" "p * 0x40 + q < 0x800"
    using r by simp_all
  have "encode_code_point (p * 0x40 + q) = [b, c1]"
    using f r(3) by (simp add: encode_code_point_def bs del: of_nat_add of_nat_numeral)
  then show "encode_code_point ((unat b - 0xC0) * 0x40 + (unat c1 - 0x80)) = [b, c1]"
    by (simp only: p_def q_def)
  show "(unat b - 0xC0) * 0x40 + (unat c1 - 0x80) < 0xD800"
    using f(2) unfolding p_def q_def by linarith
qed

lemma encode_three:
  assumes "0xE0 \<le> unat b" "unat b \<le> 0xEF"
    and "in_range (if unat b = 0xE0 then 0xA0 else 0x80) (if unat b = 0xED then 0x9F else 0xBF) c1"
    and "in_range 0x80 0xBF c2"
  shows "encode_code_point
           ((unat b - 0xE0) * 0x1000 + (unat c1 - 0x80) * 0x40 + (unat c2 - 0x80)) = [b, c1, c2]"
    and "(unat b - 0xE0) * 0x1000 + (unat c1 - 0x80) * 0x40 + (unat c2 - 0x80) < 0x10000"
    and "\<not> (0xD800 \<le> (unat b - 0xE0) * 0x1000 + (unat c1 - 0x80) * 0x40 + (unat c2 - 0x80)
            \<and> (unat b - 0xE0) * 0x1000 + (unat c1 - 0x80) * 0x40 + (unat c2 - 0x80) \<le> 0xDFFF)"
proof -
  define p q r where "p = unat b - 0xE0" and "q = unat c1 - 0x80" and "r = unat c2 - 0x80"
  define cp where "cp = p * 0x1000 + q * 0x40 + r"
  have u: "unat b = 0xE0 + p" "unat c1 = 0x80 + q" "unat c2 = 0x80 + r"
    using assms by (auto simp: p_def q_def r_def in_range_def split: if_splits)
  have bs: "of_nat (0xE0 + p) = b" "of_nat (0x80 + q) = c1" "of_nat (0x80 + r) = c2"
    using u by (metis of_nat_unat8)+
  have rg: "p < 0x10" "q < 0x40" "r < 0x40" "p = 0 \<longrightarrow> 0x20 \<le> q" "p = 0xD \<longrightarrow> q < 0x20"
    using assms by (auto simp: p_def q_def r_def in_range_def split: if_splits)
  have lo: "0x800 \<le> cp"
    using rg unfolding cp_def by (cases "p = 0") simp_all
  have hi: "cp < 0x10000"
    using rg unfolding cp_def by simp
  have ns: "\<not> (0xD800 \<le> cp \<and> cp \<le> 0xDFFF)"
  proof (cases "p = 0xD")
    case True
    then show ?thesis using rg unfolding cp_def by simp
  next
    case False
    then have "p < 0xD \<or> 0xE \<le> p" by linarith
    then show ?thesis using rg unfolding cp_def by auto
  qed
  define m where "m = p * 0x40 + q"
  define n where "n = q * 0x40 + r"
  have n: "n < 0x1000" using rg by (simp add: n_def)
  have c1: "cp = p * 0x1000 + n" by (simp add: cp_def n_def)
  have c2: "cp = m * 0x40 + r" by (simp add: cp_def m_def)
  have d1: "cp div 0x1000 = p"
    unfolding c1 using n by simp
  have d3: "cp mod 0x40 = r"
    unfolding c2 using rg(3) by simp
  have "cp div 0x40 = m"
    unfolding c2 using rg(3) by simp
  then have d2: "cp div 0x40 mod 0x40 = q"
    using rg(2) by (simp add: m_def)
  have "encode_code_point cp = [b, c1, c2]"
    using lo hi by (simp add: encode_code_point_def d1 d2 d3 bs del: of_nat_add of_nat_numeral)
  then show "encode_code_point
           ((unat b - 0xE0) * 0x1000 + (unat c1 - 0x80) * 0x40 + (unat c2 - 0x80)) = [b, c1, c2]"
    by (simp only: cp_def p_def q_def r_def)
  show "(unat b - 0xE0) * 0x1000 + (unat c1 - 0x80) * 0x40 + (unat c2 - 0x80) < 0x10000"
    using hi by (simp only: cp_def p_def q_def r_def)
  show "\<not> (0xD800 \<le> (unat b - 0xE0) * 0x1000 + (unat c1 - 0x80) * 0x40 + (unat c2 - 0x80)
            \<and> (unat b - 0xE0) * 0x1000 + (unat c1 - 0x80) * 0x40 + (unat c2 - 0x80) \<le> 0xDFFF)"
    using ns unfolding cp_def p_def q_def r_def .
qed

lemma encode_four:
  assumes "0xF0 \<le> unat b" "unat b \<le> 0xF4"
    and "in_range (if unat b = 0xF0 then 0x90 else 0x80) (if unat b = 0xF4 then 0x8F else 0xBF) c1"
    and "in_range 0x80 0xBF c2" and "in_range 0x80 0xBF c3"
  shows "encode_code_point
           ((unat b - 0xF0) * 0x40000 + (unat c1 - 0x80) * 0x1000
            + (unat c2 - 0x80) * 0x40 + (unat c3 - 0x80)) = [b, c1, c2, c3]"
    and "(unat b - 0xF0) * 0x40000 + (unat c1 - 0x80) * 0x1000
            + (unat c2 - 0x80) * 0x40 + (unat c3 - 0x80) < 0x110000"
    and "0x10000 \<le> (unat b - 0xF0) * 0x40000 + (unat c1 - 0x80) * 0x1000
            + (unat c2 - 0x80) * 0x40 + (unat c3 - 0x80)"
proof -
  define p q r t where "p = unat b - 0xF0" and "q = unat c1 - 0x80"
    and "r = unat c2 - 0x80" and "t = unat c3 - 0x80"
  define cp where "cp = p * 0x40000 + q * 0x1000 + r * 0x40 + t"
  have u: "unat b = 0xF0 + p" "unat c1 = 0x80 + q" "unat c2 = 0x80 + r" "unat c3 = 0x80 + t"
    using assms by (auto simp: p_def q_def r_def t_def in_range_def split: if_splits)
  have bs: "of_nat (0xF0 + p) = b" "of_nat (0x80 + q) = c1" "of_nat (0x80 + r) = c2"
    "of_nat (0x80 + t) = c3"
    using u by (metis of_nat_unat8)+
  have rg: "p < 5" "q < 0x40" "r < 0x40" "t < 0x40" "p = 0 \<longrightarrow> 0x10 \<le> q" "p = 4 \<longrightarrow> q < 0x10"
    using assms by (auto simp: p_def q_def r_def t_def in_range_def split: if_splits)
  have lo: "0x10000 \<le> cp"
    using rg unfolding cp_def by (cases "p = 0") simp_all
  have hi: "cp < 0x110000"
    using rg unfolding cp_def by (cases "p = 4") simp_all
  define m where "m = p * 0x40 + q"
  define k where "k = m * 0x40 + r"
  define n where "n = q * 0x1000 + r * 0x40 + t"
  define j where "j = r * 0x40 + t"
  have n: "n < 0x40000" using rg by (simp add: n_def)
  have j: "j < 0x1000" using rg by (simp add: j_def)
  have c1: "cp = p * 0x40000 + n" by (simp add: cp_def n_def)
  have c2: "cp = m * 0x1000 + j" by (simp add: cp_def m_def j_def)
  have c3: "cp = k * 0x40 + t" by (simp add: cp_def k_def m_def)
  have d1: "cp div 0x40000 = p"
    unfolding c1 using n by simp
  have "cp div 0x1000 = m"
    unfolding c2 using j by simp
  then have d2: "cp div 0x1000 mod 0x40 = q"
    using rg(2) by (simp add: m_def)
  have "cp div 0x40 = k"
    unfolding c3 using rg(4) by simp
  then have d3: "cp div 0x40 mod 0x40 = r"
    using rg(3) by (simp add: k_def)
  have d4: "cp mod 0x40 = t"
    unfolding c3 using rg(4) by simp
  have "encode_code_point cp = [b, c1, c2, c3]"
    using lo by (simp add: encode_code_point_def d1 d2 d3 d4 bs del: of_nat_add of_nat_numeral)
  then show "encode_code_point
           ((unat b - 0xF0) * 0x40000 + (unat c1 - 0x80) * 0x1000
            + (unat c2 - 0x80) * 0x40 + (unat c3 - 0x80)) = [b, c1, c2, c3]"
    by (simp only: cp_def p_def q_def r_def t_def)
  show "(unat b - 0xF0) * 0x40000 + (unat c1 - 0x80) * 0x1000
            + (unat c2 - 0x80) * 0x40 + (unat c3 - 0x80) < 0x110000"
    using hi by (simp only: cp_def p_def q_def r_def t_def)
  show "0x10000 \<le> (unat b - 0xF0) * 0x40000 + (unat c1 - 0x80) * 0x1000
            + (unat c2 - 0x80) * 0x40 + (unat c3 - 0x80)"
    using lo by (simp only: cp_def p_def q_def r_def t_def)
qed

lemma encode_decode:
  "well_formed_utf8 bs \<Longrightarrow> utf8_encode (utf8_decode bs) = bs"
proof (induction bs rule: well_formed_utf8.induct)
  case 1
  show ?case by simp
next
  case (2 b bs)
  consider (one) "unat b < 0x80"
    | (two) "0xC2 \<le> unat b" "unat b \<le> 0xDF"
    | (three) "0xE0 \<le> unat b" "unat b \<le> 0xEF"
    | (four) "0xF0 \<le> unat b" "unat b \<le> 0xF4"
    using "2.prems" by (auto simp: Let_def split: if_splits)
  then show ?case
  proof cases
    case one
    then have "well_formed_utf8 bs" using "2.prems" by simp
    then have "utf8_encode (utf8_decode bs) = bs" using "2.IH"(1) one by simp
    then show ?thesis using one by (simp add: encode_one del: utf8_encode.simps)
  next
    case two
    then obtain c1 r1 where bs: "bs = c1 # r1" and c1: "in_range 0x80 0xBF c1"
      and wf: "well_formed_utf8 r1"
      using "2.prems" by (auto simp: Let_def split: list.splits)
    have ih: "utf8_encode (utf8_decode r1) = r1"
      using "2.IH"(2) [OF refl _ _ bs] two wf by simp
    note e = encode_two [OF two c1]
    have "utf8_encode (code_point_units ((unat b - 0xC0) * 0x40 + (unat c1 - 0x80))
            @ utf8_decode r1) = [b, c1] @ r1"
      using e by (subst encode_units) (simp_all add: ih)
    then show ?thesis using two c1 by (simp add: bs)
  next
    case three
    then obtain c1 c2 r2 where bs: "bs = c1 # c2 # r2"
      and c1: "in_range (if unat b = 0xE0 then 0xA0 else 0x80)
                 (if unat b = 0xED then 0x9F else 0xBF) c1"
      and c2: "in_range 0x80 0xBF c2" and wf: "well_formed_utf8 r2"
      using "2.prems" by (auto simp: Let_def split: list.splits)
    have ih: "utf8_encode (utf8_decode r2) = r2"
      using "2.IH"(3) [OF refl _ _ _ bs] three wf by simp
    note e = encode_three [OF three c1 c2]
    have "utf8_encode (code_point_units
            ((unat b - 0xE0) * 0x1000 + (unat c1 - 0x80) * 0x40 + (unat c2 - 0x80))
            @ utf8_decode r2) = [b, c1, c2] @ r2"
      using e by (subst encode_units) (simp_all add: ih)
    then show ?thesis using three c1 c2 by (simp add: bs)
  next
    case four
    then obtain c1 c2 c3 r3 where bs: "bs = c1 # c2 # c3 # r3"
      and c1: "in_range (if unat b = 0xF0 then 0x90 else 0x80)
                 (if unat b = 0xF4 then 0x8F else 0xBF) c1"
      and c2: "in_range 0x80 0xBF c2" and c3: "in_range 0x80 0xBF c3"
      and wf: "well_formed_utf8 r3"
      using "2.prems" by (auto simp: Let_def split: list.splits)
    have ih: "utf8_encode (utf8_decode r3) = r3"
      using "2.IH"(4) [OF refl _ _ _ _ bs] four wf by simp
    note e = encode_four [OF four c1 c2 c3]
    have "utf8_encode (code_point_units
            ((unat b - 0xF0) * 0x40000 + (unat c1 - 0x80) * 0x1000
             + (unat c2 - 0x80) * 0x40 + (unat c3 - 0x80))
            @ utf8_decode r3) = [b, c1, c2, c3] @ r3"
      using e by (subst encode_units) (simp_all add: ih)
    then show ?thesis using four c1 c2 c3 by (simp add: bs)
  qed
qed

lemma utf8_encode_append:
  "xs = [] \<or> \<not> high_surrogate (last xs) \<Longrightarrow>
   utf8_encode (xs @ ys) = utf8_encode xs @ utf8_encode ys"
proof (induction xs rule: utf8_encode.induct)
  case 1
  show ?case by simp
next
  case (2 u us)
  show ?case
  proof (cases "high_surrogate u")
    case True
    show ?thesis
    proof (cases us)
      case Nil
      then show ?thesis using "2.prems" True by simp
    next
      case (Cons l r)
      show ?thesis
      proof (cases "low_surrogate l")
        case low: True
        have "r = [] \<or> \<not> high_surrogate (last r)"
          using "2.prems" Cons by (auto split: if_splits)
        then have "utf8_encode (r @ ys) = utf8_encode r @ utf8_encode ys"
          using "2.IH"(1) [OF True Cons low] by simp
        then show ?thesis using True Cons low by simp
      next
        case nlow: False
        have "us = [] \<or> \<not> high_surrogate (last us)"
          using "2.prems" Cons by (auto split: if_splits)
        then have "utf8_encode (us @ ys) = utf8_encode us @ utf8_encode ys"
          using "2.IH"(2) [OF True Cons nlow] by simp
        then show ?thesis using True Cons nlow by simp
      qed
    qed
  next
    case False
    have "us = [] \<or> \<not> high_surrogate (last us)"
      using "2.prems" by (auto split: if_splits)
    then have ih: "utf8_encode (us @ ys) = utf8_encode us @ utf8_encode ys"
      using "2.IH"(3,4) False by (cases "low_surrogate u") simp_all
    then show ?thesis using False by simp
  qed
qed

lemma unat_of_char_byte: "unat (of_char c :: byte) = of_char c"
proof -
  have "unat (of_nat (of_char c) :: byte) = of_char c mod 256"
    by (simp add: unat_of_nat)
  then show ?thesis
    by (simp add: of_nat_of_char)
qed

lemma utf8_decode_ascii:
  "list_all (\<lambda>c. of_char c < (0x80 :: nat)) s \<Longrightarrow>
   utf8_decode (ascii s @ rest) = lit s @ utf8_decode rest"
  by (induction s) (simp_all add: ascii_def lit_def unat_of_char_byte of_nat_of_char)

lemma utf8_encode_ascii:
  "list_all (\<lambda>c. of_char c < (0x80 :: nat)) s \<Longrightarrow>
   utf8_encode (lit s @ rest) = ascii s @ utf8_encode rest"
proof (induction s)
  case Nil
  show ?case by (simp add: ascii_def lit_def)
next
  case (Cons c s)
  have u: "unat (of_char c :: code_unit) = of_char c"
  proof -
    have "unat (of_nat (of_char c) :: code_unit) = of_char c mod 65536"
      by (simp add: unat_of_nat)
    moreover have "(of_char c :: nat) < 65536"
      using Cons.prems by simp
    ultimately show ?thesis
      by (simp add: of_nat_of_char)
  qed
  have "encode_code_point (of_char c) = [of_char c]"
    using Cons.prems by (simp add: encode_code_point_def of_nat_of_char)
  then show ?case
    using Cons by (simp add: ascii_def lit_def high_surrogate_def low_surrogate_def u)
qed

subsection \<open>Effects\<close>

lemma files_emit [simp]: "files (emit e w) = files w"
  by (simp add: emit_def)

lemma trace_emit [simp]: "trace (emit e w) = trace w @ [e]"
  by (simp add: emit_def)

lemma files_console_log [simp]: "files (console_log m w) = files w"
  by (simp add: console_log_def)

lemma trace_console_log [simp]: "trace (console_log m w) = trace w @ [ConsoleLog m]"
  by (simp add: console_log_def)

lemma files_console_error [simp]: "files (console_error m w) = files w"
  by (simp add: console_error_def)

lemma trace_console_error [simp]: "trace (console_error m w) = trace w @ [ConsoleError m]"
  by (simp add: console_error_def)

lemma files_writeFileSync [simp]:
  "files (writeFileSync f c w) = (files w)(f \<mapsto> utf8_encode c)"
  by (simp add: writeFileSync_def)

lemma trace_writeFileSync [simp]:
  "trace (writeFileSync f c w) = trace w @ [WriteFileSync f c]"
  by (simp add: writeFileSync_def)

lemma files_start [simp]: "files (start fs) = fs"
  by (simp add: start_def)

lemma trace_start [simp]: "trace (start fs) = []"
  by (simp add: start_def)

lemma readFileSync_Some:
  "files w f = Some bytes \<Longrightarrow>
   readFileSync f w = (Inr (utf8_decode bytes), emit (ReadFileSync f) w)"
  by (simp add: readFileSync_def)

lemma extname_configFiles [simp]:
  "extname ''app.json'' = ''.json''"
  "extname ''app.config.js'' = ''.js''"
  "extname ''app.config.ts'' = ''.ts''"
  by (simp_all add: extname_def)

lemma detectConfigFile_eq:
  "detectConfigFile w =
     (if files w ''app.json'' \<noteq> None
      then (Some ''app.json'', emit (ExistsSync ''app.json'') w)
      else if files w ''app.config.js'' \<noteq> None
      then (Some ''app.config.js'',
            emit (ExistsSync ''app.config.js'') (emit (ExistsSync ''app.json'') w))
      else if files w ''app.config.ts'' \<noteq> None
      then (Some ''app.config.ts'',
            emit (ExistsSync ''app.config.ts'')
              (emit (ExistsSync ''app.config.js'') (emit (ExistsSync ''app.json'') w)))
      else (None,
            emit (ExistsSync ''app.config.ts'')
              (emit (ExistsSync ''app.config.js'') (emit (ExistsSync ''app.json'') w))))"
  by (simp add: detectConfigFile_def configFiles_def existsSync_def)

lemma detectConfigFile_Some:
  assumes "fst (detectConfigFile w) = Some f"
  shows "f \<in> {''app.json'', ''app.config.js'', ''app.config.ts''}"
    and "files w f \<noteq> None"
    and "files (snd (detectConfigFile w)) = files w"
    and "f = ''app.json'' \<longleftrightarrow> files w ''app.json'' \<noteq> None"
  using assms by (auto simp: detectConfigFile_eq split: if_splits)


lemma probed_simps [simp]:
  "probed ''app.json'' = [ExistsSync ''app.json'']"
  "probed ''app.config.js'' = [ExistsSync ''app.json'', ExistsSync ''app.config.js'']"
  "probed ''app.config.ts'' =
     [ExistsSync ''app.json'', ExistsSync ''app.config.js'', ExistsSync ''app.config.ts'']"
  by (simp_all add: probed_def configFiles_def)

lemma detectConfigFile_trace:
  "fst (detectConfigFile w) = Some f \<Longrightarrow> trace (snd (detectConfigFile w)) = trace w @ probed f"
  by (auto simp: detectConfigFile_eq split: if_splits)


subsection \<open>The flag\<close>

lemma split_on_nonempty: "split_on sep s \<noteq> []"
  by (induction s) (auto split: list.splits)

lemma hd_split_on: "hd (split_on sep s) = takeWhile (\<lambda>c. c \<noteq> sep) s"
  by (induction s) (auto simp: split_on_nonempty split: list.splits)

lemma split_on_first:
  "sep \<notin> set p \<Longrightarrow> split_on sep (p @ sep # v) = p # split_on sep v"
  by (induction p) auto

text \<open>
  What line 216 compares: of the text \<open>v\<close> that follows \<open>--colorSpace=\<close>, the part before
  its first \<open>=\<close>.
\<close>

lemma flag_value_compared:
  "at_index (split_on (of_char CHR ''='') (lit ''--colorSpace='' @ v)) 1
     = Some (takeWhile (\<lambda>c. c \<noteq> of_char CHR ''='') v)"
proof -
  have "lit ''--colorSpace='' @ v = lit ''--colorSpace'' @ of_char CHR ''='' # v"
    by (simp add: lit_def)
  moreover have "of_char CHR ''='' \<notin> set (lit ''--colorSpace'')"
    by (simp add: lit_def)
  ultimately have "split_on (of_char CHR ''='') (lit ''--colorSpace='' @ v)
      = lit ''--colorSpace'' # split_on (of_char CHR ''='') v"
    using split_on_first [of "of_char CHR ''=''" "lit ''--colorSpace''" v] by simp
  then show ?thesis
    using split_on_nonempty [of "of_char CHR ''=''" v] hd_split_on [of "of_char CHR ''=''" v]
    by (cases "split_on (of_char CHR ''='') v") (auto simp: at_index_def)
qed

text \<open>
  The run of \<open>apply --colorSpace=v\<close>: a value whose part before its first \<open>=\<close> is
  neither of the two names is rejected before any file is looked at; a value without
  \<open>=\<close> is compared as a whole.
\<close>

lemma main_flag:
  "main rt [lit ''apply'', lit ''--colorSpace='' @ v] input w =
     (let compared = takeWhile (\<lambda>c. c \<noteq> of_char CHR ''='') v
      in if compared = lit ''displayP3'' then apply_cmd rt (Some displayP3) input w
         else if compared = lit ''SRGB'' then apply_cmd rt (Some SRGB) input w
         else (Exited 1, console_error InvalidColorSpace w))"
proof -
  have "\<not> prefix (lit ''--colorSpace='') (lit ''apply'')"
    by (simp add: lit_def)
  moreover have "prefix (lit ''--colorSpace='') (lit ''--colorSpace='' @ v)"
    by simp
  ultimately have "find (\<lambda>arg. prefix (lit ''--colorSpace='') arg)
      [lit ''apply'', lit ''--colorSpace='' @ v] = Some (lit ''--colorSpace='' @ v)"
    by simp
  moreover have "at_index [lit ''apply'', lit ''--colorSpace='' @ v] 0 = Some (lit ''apply'')"
    by (simp add: at_index_def)
  ultimately show ?thesis
    unfolding main_def by (simp only: flag_value_compared Let_def option.case if_True)
       (auto simp: lit_def)
qed

subsection \<open>The text patcher\<close>

lemma String_includes_sublist: "String_includes s t \<longleftrightarrow> sublist t s"
  by (induction s) (simp_all add: sublist_Cons_right)

lemma pluginEntry_template: "pluginEntry c = entry_template c"
  by (cases c) (simp_all add: pluginEntry_def lit_def)

lemma entry_template_includes: "sublist plugin_id (entry_template c)"
proof -
  have "entry_template c = lit ''[\"'' @ plugin_id @ lit ''\", { \"colorSpace\": \"'' @ colorSpace_text c @ lit ''\" }]''"
    by (cases c) (simp_all add: lit_def plugin_id_def)
  then show ?thesis
    by (metis sublist_appendI)
qed

lemma rx_match_le: "rx_match r s = Some n \<Longrightarrow> n \<le> length s"
  by (induction r s arbitrary: n rule: rx_match.induct)
     (auto split: if_splits option.splits)

lemma rx_exec_le: "rx_exec r s = Some (i, n) \<Longrightarrow> i + n \<le> length s"
  by (induction r s arbitrary: i rule: rx_exec.induct)
     (auto split: option.splits dest: rx_match_le)

lemma String_replace_after:
  "rx_exec r s = Some (i, n) \<Longrightarrow>
   String_replace s r [Group1, Text t] = take (i + n) s @ t @ drop (i + n) s"
  by (simp add: String_replace_def take_add)

subsection \<open>What the three regular expressions match\<close>

lemma rx_match_lits:
  "rx_match (map Chr kw @ r) s =
     (if prefix kw s
      then map_option (\<lambda>n. length kw + n) (rx_match r (drop (length kw) s))
      else None)"
proof (induction kw arbitrary: s)
  case Nil
  show ?case by (cases "rx_match r s") simp_all
next
  case (Cons c kw)
  show ?case
    by (cases s) (auto simp: Cons.IH option.map_comp comp_def)
qed

lemma rx_match_star_chr:
  assumes "\<not> is_space b"
  shows "rx_match [SpaceStar, Chr b] s =
     (case dropWhile is_space s of
        [] \<Rightarrow> None
      | x # xs \<Rightarrow> if x = b then Some (Suc (length (takeWhile is_space s))) else None)"
proof (induction s)
  case Nil
  show ?case by simp
next
  case (Cons a s)
  show ?case
  proof (cases "is_space a")
    case True
    with assms have "a \<noteq> b" by auto
    with True Cons.IH show ?thesis
      by (simp del: dropWhile_eq_Nil_conv split: list.splits)
  next
    case False
    with assms show ?thesis by simp
  qed
qed

lemma rx_match_token:
  assumes "\<not> is_space b"
  shows "rx_match (map Chr kw @ [SpaceStar, Chr b]) s = token_at kw b s"
  by (simp add: rx_match_lits rx_match_star_chr [OF assms] token_at_def
      del: dropWhile_eq_Nil_conv split: list.splits)

lemma rx_exec_token:
  assumes "\<not> is_space b"
  shows "map_option (\<lambda>(i, n). i + n) (rx_exec (map Chr kw @ [SpaceStar, Chr b]) s)
           = token_end kw b s"
proof (induction s)
  case Nil
  show ?case
    by (simp add: rx_match_token [OF assms] token_at_def)
next
  case (Cons c cs)
  show ?case
  proof (cases "token_at kw b (c # cs)")
    case None
    then show ?thesis
      using Cons.IH [symmetric]
      by (cases "rx_exec (map Chr kw @ [SpaceStar, Chr b]) cs")
         (auto simp: rx_match_token [OF assms])
  next
    case (Some n)
    then show ?thesis
      by (simp add: rx_match_token [OF assms])
  qed
qed

text \<open>
  The three expressions of the source find the leftmost anchor: \<open>plugins:\<close>, white
  space, \<open>[\<close>; the same with the key in double quotes; \<open>expo:\<close>, white space, \<open>{\<close>.
\<close>

lemma anchor_regexes:
  \<open>map_option (\<lambda>(i, n). i + n) (rx_exec pluginsArrayRegex s)
     = token_end (lit ''plugins:'') (of_char CHR ''['') s\<close>
  \<open>map_option (\<lambda>(i, n). i + n) (rx_exec pluginsArrayJsonRegex s)
     = token_end (lit ''"plugins":'') (of_char CHR ''['') s\<close>
  \<open>map_option (\<lambda>(i, n). i + n) (rx_exec expoObjectRegex s)
     = token_end (lit ''expo:'') (of_char CHR ''{'') s\<close>
  unfolding pluginsArrayRegex_def pluginsArrayJsonRegex_def expoObjectRegex_def
  by (rule rx_exec_token, simp add: is_space_def)+

lemma replace_at_token:
  assumes "map_option (\<lambda>(i, n). i + n) (rx_exec r s) = token_end kw b s"
  shows "RegExp_test r s \<longleftrightarrow> token_end kw b s \<noteq> None"
    and "token_end kw b s = Some k \<Longrightarrow>
         String_replace s r [Group1, Text t] = take k s @ t @ drop k s"
proof -
  show "RegExp_test r s \<longleftrightarrow> token_end kw b s \<noteq> None"
    using assms [symmetric] by (cases "rx_exec r s") (auto simp: RegExp_test_def)
  assume "token_end kw b s = Some k"
  with assms obtain i n where "rx_exec r s = Some (i, n)" and "k = i + n"
    by (cases "rx_exec r s") auto
  then show "String_replace s r [Group1, Text t] = take k s @ t @ drop k s"
    by (simp add: String_replace_after)
qed

text \<open>The text patcher as the ordered rule list.\<close>

lemma modifyAppConfigJs_eq:
  assumes "files w f = Some bytes"
  shows "modifyAppConfigJs f c w =
     (if String_includes (utf8_decode bytes) plugin_id
      then (Inr False, console_log (AlreadyConfigured f) (emit (ReadFileSync f) w))
      else case matched_anchor c (utf8_decode bytes) of
             None \<Rightarrow>
               (Inr False,
                console_log (ManualEntry (lit ''  '' @ entry_template c))
                  (console_log PleaseAddManually
                     (console_log (CouldNotModify f) (emit (ReadFileSync f) w))))
           | Some (k, inserted) \<Rightarrow>
               (Inr True,
                writeFileSync f
                  (take k (utf8_decode bytes) @ inserted @ drop k (utf8_decode bytes))
                  (emit (ReadFileSync f) w)))"
proof -
  note r1 = replace_at_token [OF anchor_regexes(1)]
  note r2 = replace_at_token [OF anchor_regexes(2)]
  note r3 = replace_at_token [OF anchor_regexes(3)]
  show ?thesis
    using assms
    by (auto simp: modifyAppConfigJs_def readFileSync_def plugin_id_def matched_anchor_def
        r1 r2 r3 firstElementReplacement_def newPluginsReplacement_def
        first_element_text_def new_declaration_text_def pluginEntry_template
        simp del: entry_template.simps split: option.splits)
qed

lemma world_eqI: "files w = fs \<Longrightarrow> trace w = t \<Longrightarrow> w = \<lparr>files = fs, trace = t\<rparr>"
  by (cases w) simp

lemma run_eqI:
  "fst r = out \<Longrightarrow> files (snd r) = fs \<Longrightarrow> trace (snd r) = t
   \<Longrightarrow> r = (out, \<lparr>files = fs, trace = t\<rparr>)"
  by (cases r) (simp add: world_eqI)

lemma modifyConfig_json [simp]:
  "modifyConfig rt ''app.json'' c w = modifyAppJson rt ''app.json'' c w"
  by (simp add: modifyConfig_def)

lemma modifyConfig_code:
  "f = ''app.config.js'' \<or> f = ''app.config.ts'' \<Longrightarrow>
   modifyConfig rt f c w = modifyAppConfigJs f c w"
  by (auto simp: modifyConfig_def)

lemma located_code:
  assumes "fst (detectConfigFile w) = Some f" and "f \<noteq> ''app.json''"
  shows "f = ''app.config.js'' \<or> f = ''app.config.ts''"
  using detectConfigFile_Some(1) [OF assms(1)] assms(2) by auto

subsection \<open>The run of apply\<close>

lemma report_simps [simp]:
  "report c (Inr False, w) = (Exited 0, w)"
  "report c (Inl e, w) = (Exited 1, console_error (ErrorMessage e) w)"
  "report c (Inr True, w) =
     (Exited 0,
      console_log (NextSteps 2) (console_log (NextSteps 1) (console_log (NextSteps 0)
        (console_log (SuccessfullyAdded c) w))))"
  by (simp_all add: report_def)

lemma files_resolveColorSpace [simp]:
  "files (snd (resolveColorSpace option input w)) = files w"
  by (simp add: resolveColorSpace_def promptColorSpace_def split: option.split)

lemma trace_resolveColorSpace [simp]:
  "trace (snd (resolveColorSpace option input w)) = trace w @ asked option"
  by (simp add: resolveColorSpace_def promptColorSpace_def asked_def split: option.split)

lemma fst_resolveColorSpace:
  "fst (resolveColorSpace option input w) =
     (case chosenColorSpace option input of
        Some c \<Rightarrow> Resolved c
      | None \<Rightarrow> if input = Closed then Abandoned else Pending)"
  by (simp add: resolveColorSpace_def promptColorSpace_def chosenColorSpace_def
      split: option.split stdin.split)

text \<open>The run after the configuration file is located.\<close>

lemma located_run:
  assumes "fst (detectConfigFile (start fs)) = Some f"
  shows "apply_cmd rt option input (start fs) =
     (case chosenColorSpace option input of
        Some c \<Rightarrow>
          report c (modifyConfig rt f c
            \<lparr>files = fs, trace = probed f @ [ConsoleLog (FoundConfigFile f)] @ asked option\<rparr>)
      | None \<Rightarrow>
          (if input = Closed then Exited 0 else Waiting,
           \<lparr>files = fs, trace = probed f @ [ConsoleLog (FoundConfigFile f)] @ asked option\<rparr>))"
proof -
  obtain w1 where d: "detectConfigFile (start fs) = (Some f, w1)"
    using assms by (cases "detectConfigFile (start fs)") auto
  have w1: "files w1 = fs" "trace w1 = probed f"
    using detectConfigFile_Some(3) [OF assms] detectConfigFile_trace [OF assms]
    by (simp_all add: d)
  obtain a w2
    where r: "resolveColorSpace option input (console_log (FoundConfigFile f) w1) = (a, w2)"
    by (cases "resolveColorSpace option input (console_log (FoundConfigFile f) w1)")
  have a: "a = (case chosenColorSpace option input of
                  Some c \<Rightarrow> Resolved c
                | None \<Rightarrow> if input = Closed then Abandoned else Pending)"
    using fst_resolveColorSpace [of option input "console_log (FoundConfigFile f) w1"]
    by (simp add: r)
  have w2: "w2 =
      \<lparr>files = fs, trace = probed f @ [ConsoleLog (FoundConfigFile f)] @ asked option\<rparr>"
    using files_resolveColorSpace [of option input "console_log (FoundConfigFile f) w1"]
      trace_resolveColorSpace [of option input "console_log (FoundConfigFile f) w1"]
    by (intro world_eqI) (simp_all add: r w1)
  show ?thesis
    by (simp add: apply_cmd_def d r a w2 split: option.split)
qed

lemma located_json:
  "fs ''app.json'' = Some bytes \<Longrightarrow> fst (detectConfigFile (start fs)) = Some ''app.json''"
  by (simp add: detectConfigFile_eq)

lemma modifyAppJson_eq:
  assumes "files w f = Some bytes"
  shows "modifyAppJson rt f c w =
     (case JSON_parse rt (utf8_decode bytes) of
        None \<Rightarrow> (Inl (FailedToModify ''app.json'' SyntaxError), emit (ReadFileSync f) w)
      | Some config \<Rightarrow>
          (case patchConfig config c of
             Inl e \<Rightarrow> (Inl (FailedToModify ''app.json'' e), emit (ReadFileSync f) w)
           | Inr None \<Rightarrow>
               (Inr False,
                console_log (AlreadyConfigured ''app.json'') (emit (ReadFileSync f) w))
           | Inr (Some config') \<Rightarrow>
               (Inr True,
                writeFileSync f (JSON_stringify rt config' 2 @ LF)
                  (emit (ReadFileSync f) w))))"
  using assms by (simp add: modifyAppJson_def readFileSync_def)

lemma located_code_run:
  assumes located: "fst (detectConfigFile (start fs)) = Some f"
    and code: "f \<noteq> ''app.json''"
    and content: "fs f = Some bytes"
    and chosen: "chosenColorSpace option input = Some c"
  shows "apply_cmd rt option input (start fs) =
     report c
       (if String_includes (utf8_decode bytes) plugin_id
        then (Inr False,
              \<lparr>files = fs,
               trace = probed f @ [ConsoleLog (FoundConfigFile f)] @ asked option
                       @ [ReadFileSync f, ConsoleLog (AlreadyConfigured f)]\<rparr>)
        else case matched_anchor c (utf8_decode bytes) of
               None \<Rightarrow>
                 (Inr False,
                  \<lparr>files = fs,
                   trace = probed f @ [ConsoleLog (FoundConfigFile f)] @ asked option
                           @ [ReadFileSync f, ConsoleLog (CouldNotModify f),
                              ConsoleLog PleaseAddManually,
                              ConsoleLog (ManualEntry (lit ''  '' @ entry_template c))]\<rparr>)
             | Some (k, inserted) \<Rightarrow>
                 (Inr True,
                  \<lparr>files = fs(f \<mapsto> utf8_encode
                             (take k (utf8_decode bytes) @ inserted @ drop k (utf8_decode bytes))),
                   trace = probed f @ [ConsoleLog (FoundConfigFile f)] @ asked option
                           @ [ReadFileSync f,
                              WriteFileSync f
                                (take k (utf8_decode bytes) @ inserted
                                 @ drop k (utf8_decode bytes))]\<rparr>))"
proof -
  let ?w = "\<lparr>files = fs, trace = probed f @ [ConsoleLog (FoundConfigFile f)] @ asked option\<rparr>"
  have "files ?w f = Some bytes"
    using content by simp
  note m = modifyAppConfigJs_eq [OF this, of c]
  show ?thesis
    unfolding located_run [OF located] chosen option.case
      modifyConfig_code [OF located_code [OF located code]] m
    by (simp add: console_log_def emit_def writeFileSync_def
        split: option.split del: entry_template.simps)
qed

lemma located_json_run:
  assumes content: "fs ''app.json'' = Some bytes"
    and chosen: "chosenColorSpace option input = Some c"
  shows "apply_cmd rt option input (start fs) =
     report c
       (case JSON_parse rt (utf8_decode bytes) of
          None \<Rightarrow>
            (Inl (FailedToModify ''app.json'' SyntaxError),
             \<lparr>files = fs,
              trace = probed ''app.json'' @ [ConsoleLog (FoundConfigFile ''app.json'')]
                      @ asked option @ [ReadFileSync ''app.json'']\<rparr>)
        | Some config \<Rightarrow>
            (case patchConfig config c of
               Inl e \<Rightarrow>
                 (Inl (FailedToModify ''app.json'' e),
                  \<lparr>files = fs,
                   trace = probed ''app.json'' @ [ConsoleLog (FoundConfigFile ''app.json'')]
                           @ asked option @ [ReadFileSync ''app.json'']\<rparr>)
             | Inr None \<Rightarrow>
                 (Inr False,
                  \<lparr>files = fs,
                   trace = probed ''app.json'' @ [ConsoleLog (FoundConfigFile ''app.json'')]
                           @ asked option
                           @ [ReadFileSync ''app.json'',
                              ConsoleLog (AlreadyConfigured ''app.json'')]\<rparr>)
             | Inr (Some config') \<Rightarrow>
                 (Inr True,
                  \<lparr>files = fs(''app.json'' \<mapsto> utf8_encode (JSON_stringify rt config' 2 @ LF)),
                   trace = probed ''app.json'' @ [ConsoleLog (FoundConfigFile ''app.json'')]
                           @ asked option
                           @ [ReadFileSync ''app.json'',
                              WriteFileSync ''app.json''
                                (JSON_stringify rt config' 2 @ LF)]\<rparr>)))"
proof -
  have located: "fst (detectConfigFile (start fs)) = Some ''app.json''"
    using content by (rule located_json)
  let ?w = "\<lparr>files = fs,
             trace = probed ''app.json'' @ [ConsoleLog (FoundConfigFile ''app.json'')]
                     @ asked option\<rparr>"
  have "files ?w ''app.json'' = Some bytes"
    using content by simp
  note m = modifyAppJson_eq [OF this, of rt c]
  show ?thesis
    unfolding located_run [OF located] chosen option.case modifyConfig_json m
    by (simp add: console_log_def emit_def writeFileSync_def
        split: option.split sum.split)
qed

lemma first_anchor_None:
  assumes "\<not> RegExp_test pluginsArrayRegex s" and "\<not> RegExp_test pluginsArrayJsonRegex s"
    and "\<not> RegExp_test expoObjectRegex s"
  shows "matched_anchor c s = None"
  using assms
  by (simp add: matched_anchor_def replace_at_token(1) [OF anchor_regexes(1)]
      replace_at_token(1) [OF anchor_regexes(2)] replace_at_token(1) [OF anchor_regexes(3)])

text \<open>
  C5. When a code-format file is located, holds no occurrence of the identifier and
  none of the three regular expressions matches it, the patcher returns \<open>false\<close> and
  leaves the files as they are; a run in which a colour space is obtained (it was given
  on the command line, or the question is answered) writes nothing, prints the entry
  text (after two spaces) as the last of three lines of guidance, and ends with exit
  code 0.
\<close>

theorem no_anchor_no_write:
  assumes located: "fst (detectConfigFile (start fs)) = Some f"
    and code: "f \<noteq> ''app.json''"
    and content: "fs f = Some bytes"
    and absent: "\<not> String_includes (utf8_decode bytes) plugin_id"
    and no_anchor: "\<not> RegExp_test pluginsArrayRegex (utf8_decode bytes)"
      "\<not> RegExp_test pluginsArrayJsonRegex (utf8_decode bytes)"
      "\<not> RegExp_test expoObjectRegex (utf8_decode bytes)"
    and chosen: "chosenColorSpace option input = Some c"
  shows "fst (modifyAppConfigJs f colorSpace (start fs)) = Inr False
    \<and> files (snd (modifyAppConfigJs f colorSpace (start fs))) = fs
    \<and> apply_cmd rt option input (start fs) =
        (Exited 0,
         \<lparr>files = fs,
          trace = probed f @ [ConsoleLog (FoundConfigFile f)] @ asked option
                  @ [ReadFileSync f, ConsoleLog (CouldNotModify f),
                     ConsoleLog PleaseAddManually,
                     ConsoleLog (ManualEntry (lit ''  '' @ entry_template c))]\<rparr>)"
proof -
  have none: "matched_anchor c' (utf8_decode bytes) = None" for c'
    using no_anchor by (rule first_anchor_None)
  have "fst (modifyAppConfigJs f colorSpace (start fs)) = Inr False
      \<and> files (snd (modifyAppConfigJs f colorSpace (start fs))) = fs"
    using content absent by (simp add: modifyAppConfigJs_eq none)
  then show ?thesis
    by (simp add: located_code_run [OF located code content chosen] absent none)
qed

subsection \<open>The sample files\<close>

lemma sample_decoded:
  "utf8_decode (ascii js_config_source) = lit js_config_source"
  "utf8_decode (ascii js_patched_source) = lit js_patched_source"
  "utf8_decode (ascii quoted_config_source) = lit quoted_config_source"
  "utf8_decode (ascii bare_config_source) = lit bare_config_source"
  "utf8_decode (ascii ts_config_source) = lit ts_config_source"
  "utf8_decode (ascii scenario_source) = lit scenario_source"
  "utf8_decode (ascii patched_source) = lit patched_source"
  "utf8_decode (ascii empty_plugins_source) = lit empty_plugins_source"
  "utf8_decode (ascii string_plugins_source) = lit string_plugins_source"
  "utf8_decode (ascii malformed_source) = lit malformed_source"
  using utf8_decode_ascii [where rest = "[]"]
  by (simp_all add: js_config_source_def js_patched_source_def quoted_config_source_def
      bare_config_source_def ts_config_source_def scenario_source_def patched_source_def
      empty_plugins_source_def string_plugins_source_def malformed_source_def)

lemma sample_encoded:
  "utf8_encode (lit js_patched_source) = ascii js_patched_source"
  "utf8_encode (lit quoted_patched_source) = ascii quoted_patched_source"
  "utf8_encode (lit bare_patched_source) = ascii bare_patched_source"
  "utf8_encode (lit patched_source) = ascii patched_source"
  using utf8_encode_ascii [where rest = "[]"]
  by (simp_all add: js_patched_source_def quoted_patched_source_def bare_patched_source_def
      patched_source_def)

lemma sample_excludes:
  "\<not> String_includes (lit js_config_source) plugin_id"
  "\<not> String_includes (lit quoted_config_source) plugin_id"
  "\<not> String_includes (lit bare_config_source) plugin_id"
  "\<not> String_includes (lit ts_config_source) plugin_id"
  by (simp_all add: js_config_source_def quoted_config_source_def bare_config_source_def
      ts_config_source_def plugin_id_def lit_def)

lemma sample_tokens:
  \<open>token_end (lit ''plugins:'') (of_char CHR ''['') (lit js_config_source) = Some 37\<close>
  \<open>token_end (lit ''plugins:'') (of_char CHR ''['') (lit quoted_config_source) = None\<close>
  \<open>token_end (lit ''"plugins":'') (of_char CHR ''['') (lit quoted_config_source) = Some 41\<close>
  \<open>token_end (lit ''plugins:'') (of_char CHR ''['') (lit bare_config_source) = None\<close>
  \<open>token_end (lit ''"plugins":'') (of_char CHR ''['') (lit bare_config_source) = None\<close>
  \<open>token_end (lit ''expo:'') (of_char CHR ''{'') (lit bare_config_source) = Some 24\<close>
  \<open>token_end (lit ''plugins:'') (of_char CHR ''['') (lit ts_config_source) = None\<close>
  \<open>token_end (lit ''"plugins":'') (of_char CHR ''['') (lit ts_config_source) = None\<close>
  \<open>token_end (lit ''expo:'') (of_char CHR ''{'') (lit ts_config_source) = None\<close>
  by (simp_all add: lit_def js_config_source_def quoted_config_source_def
      bare_config_source_def ts_config_source_def token_at_def is_space_def)

lemma sample_insertions:
  \<open>take 37 (lit js_config_source) @ (lit ''\<newline>      '' @ entry_template displayP3 @ lit '','')
     @ drop 37 (lit js_config_source) = lit js_patched_source\<close>
  \<open>take 41 (lit quoted_config_source) @ (lit ''\<newline>      '' @ entry_template SRGB @ lit '','')
     @ drop 41 (lit quoted_config_source) = lit quoted_patched_source\<close>
  \<open>take 24 (lit bare_config_source)
     @ (lit ''\<newline>    plugins: [\<newline>      '' @ entry_template SRGB @ lit ''\<newline>    ],'')
     @ drop 24 (lit bare_config_source) = lit bare_patched_source\<close>
  by (simp_all add: lit_def js_config_source_def js_patched_source_def
      quoted_config_source_def quoted_patched_source_def bare_config_source_def
      bare_patched_source_def)

lemma sample_anchors:
  "matched_anchor c (lit js_config_source) = Some (37, first_element_text c)"
  "matched_anchor c (lit quoted_config_source) = Some (41, first_element_text c)"
  "matched_anchor c (lit bare_config_source) = Some (24, new_declaration_text c)"
  "matched_anchor c (lit ts_config_source) = None"
  by (simp_all only: matched_anchor_def sample_tokens option.case)

lemma sample_patched:
  "take 37 (lit js_config_source) @ first_element_text displayP3
     @ drop 37 (lit js_config_source) = lit js_patched_source"
  "take 41 (lit quoted_config_source) @ first_element_text SRGB
     @ drop 41 (lit quoted_config_source) = lit quoted_patched_source"
  "take 24 (lit bare_config_source) @ new_declaration_text SRGB
     @ drop 24 (lit bare_config_source) = lit bare_patched_source"
  using sample_insertions
  by (simp_all only: first_element_text_def new_declaration_text_def)

subsection \<open>The anchor policy\<close>

text \<open>
  C3. For a code-format file whose text does not hold the identifier, the patcher tries
  three anchors in this order: \<open>plugins:\<close>, white space, \<open>[\<close>; then \<open>"plugins":\<close>, white
  space, \<open>[\<close>; then \<open>expo:\<close>, white space, \<open>{\<close>. Only the first that occurs is
  applied, at its leftmost occurrence. After a plugins-list anchor the text inserted is
  a line break, six spaces, the fixed template of the entry and a comma: the entry
  becomes the first element. After the \<open>expo\<close> anchor it is a new \<open>plugins: [ ... ],\<close>
  declaration, on lines of its own, that holds the template. When none of the three
  occurs nothing is written and the template is printed.
\<close>

theorem anchor_policy:
  assumes "files w f = Some bytes"
    and "\<not> String_includes (utf8_decode bytes) plugin_id"
  shows \<open>modifyAppConfigJs f colorSpace w =
     (let content = utf8_decode bytes;
          entry = entry_template colorSpace;
          insert_at = (\<lambda>k text.
            (Inr True,
             writeFileSync f (take k content @ text @ drop k content)
               (emit (ReadFileSync f) w)))
      in case token_end (lit ''plugins:'') (of_char CHR ''['') content of
           Some k \<Rightarrow> insert_at k (lit ''\<newline>      '' @ entry @ lit '','')
         | None \<Rightarrow>
        (case token_end (lit ''"plugins":'') (of_char CHR ''['') content of
           Some k \<Rightarrow> insert_at k (lit ''\<newline>      '' @ entry @ lit '','')
         | None \<Rightarrow>
        (case token_end (lit ''expo:'') (of_char CHR ''{'') content of
           Some k \<Rightarrow>
             insert_at k (lit ''\<newline>    plugins: [\<newline>      '' @ entry @ lit ''\<newline>    ],'')
         | None \<Rightarrow>
             (Inr False,
              console_log (ManualEntry (lit ''  '' @ entry))
                (console_log PleaseAddManually
                   (console_log (CouldNotModify f) (emit (ReadFileSync f) w)))))))\<close>
  using assms
  by (simp add: modifyAppConfigJs_eq matched_anchor_def first_element_text_def
      new_declaration_text_def Let_def split: option.split del: entry_template.simps)

theorem anchor_policy_witness:
  "modifyAppConfigJs ''app.config.js'' displayP3
     (start [''app.config.js'' \<mapsto> ascii js_config_source])
   = (Inr True,
      \<lparr>files = [''app.config.js'' \<mapsto> ascii js_patched_source],
       trace = [ReadFileSync ''app.config.js'',
                WriteFileSync ''app.config.js'' (lit js_patched_source)]\<rparr>)
   \<and> modifyAppConfigJs ''app.config.js'' SRGB
       (start [''app.config.js'' \<mapsto> ascii quoted_config_source])
   = (Inr True,
      \<lparr>files = [''app.config.js'' \<mapsto> ascii quoted_patched_source],
       trace = [ReadFileSync ''app.config.js'',
                WriteFileSync ''app.config.js'' (lit quoted_patched_source)]\<rparr>)
   \<and> modifyAppConfigJs ''app.config.ts'' SRGB
       (start [''app.config.ts'' \<mapsto> ascii bare_config_source])
   = (Inr True,
      \<lparr>files = [''app.config.ts'' \<mapsto> ascii bare_patched_source],
       trace = [ReadFileSync ''app.config.ts'',
                WriteFileSync ''app.config.ts'' (lit bare_patched_source)]\<rparr>)
   \<and> modifyAppConfigJs ''app.config.ts'' SRGB
       (start [''app.config.ts'' \<mapsto> ascii ts_config_source])
   = (Inr False,
      \<lparr>files = [''app.config.ts'' \<mapsto> ascii ts_config_source],
       trace = [ReadFileSync ''app.config.ts'',
                ConsoleLog (CouldNotModify ''app.config.ts''),
                ConsoleLog PleaseAddManually,
                ConsoleLog (ManualEntry (lit ''  '' @ entry_template SRGB))]\<rparr>)"
proof -
  have f: "files (start [name \<mapsto> bytes]) name = Some bytes" for name bytes
    by simp
  have e: "\<not> String_includes (utf8_decode (ascii js_config_source)) plugin_id"
    "\<not> String_includes (utf8_decode (ascii quoted_config_source)) plugin_id"
    "\<not> String_includes (utf8_decode (ascii bare_config_source)) plugin_id"
    "\<not> String_includes (utf8_decode (ascii ts_config_source)) plugin_id"
    by (simp_all add: sample_decoded sample_excludes)
  show ?thesis
    unfolding anchor_policy [OF f e(1)] anchor_policy [OF f e(2)]
      anchor_policy [OF f e(3)] anchor_policy [OF f e(4)]
    by (simp only: sample_decoded sample_tokens sample_insertions Let_def option.case)
       (simp add: sample_encoded start_def emit_def writeFileSync_def console_log_def
          del: entry_template.simps)
qed

subsection \<open>The frame of the text patch\<close>

lemma token_at_bracket:
  assumes "token_at kw b s = Some n"
  shows "0 < n \<and> n \<le> length s \<and> s ! (n - 1) = b"
proof -
  let ?t = "drop (length kw) s"
  from assms obtain rest
    where p: "prefix kw s" and d: "dropWhile is_space ?t = b # rest"
      and n: "n = length kw + length (takeWhile is_space ?t) + 1"
    by (auto simp: token_at_def split: if_splits list.splits)
  have t: "?t = takeWhile is_space ?t @ b # rest"
    using d by (metis takeWhile_dropWhile_id)
  have s: "s = kw @ ?t"
    using p by (metis append_eq_conv_conj prefix_def)
  then have "s = (kw @ takeWhile is_space ?t) @ b # rest"
    using t by (metis append.assoc)
  moreover have "length (kw @ takeWhile is_space ?t) = n - 1"
    using n by simp
  ultimately have "s ! (n - 1) = b" and "n - 1 < length s"
    by (metis nth_append_length, metis length_append length_Cons less_add_Suc1 add_Suc_right)
  then show ?thesis
    using n by simp
qed

lemma token_end_bracket:
  "token_end kw b s = Some k \<Longrightarrow> 0 < k \<and> k \<le> length s \<and> s ! (k - 1) = b"
proof (induction s arbitrary: k)
  case Nil
  then show ?case by simp
next
  case (Cons c cs)
  show ?case
  proof (cases "token_at kw b (c # cs)")
    case (Some n)
    with Cons.prems show ?thesis
      using token_at_bracket [of kw b "c # cs" n] by simp
  next
    case None
    with Cons.prems obtain k' where k': "token_end kw b cs = Some k'" and k: "k = Suc k'"
      by auto
    from Cons.IH [OF k'] have "0 < k'" "k' \<le> length cs" "cs ! (k' - 1) = b"
      by simp_all
    then show ?thesis
      using k by (cases k') simp_all
  qed
qed

lemma matched_anchor_bracket:
  assumes "matched_anchor c s = Some (k, inserted)"
  shows "0 < k" and "k \<le> length s"
    and "s ! (k - 1) = of_char CHR ''['' \<or> s ! (k - 1) = of_char CHR ''{''"
    and "inserted = first_element_text c \<or> inserted = new_declaration_text c"
  using assms
  by (auto simp: matched_anchor_def split: option.splits dest!: token_end_bracket)

lemma inserted_last:
  assumes "inserted = first_element_text c \<or> inserted = new_declaration_text c"
  shows "inserted \<noteq> []" and "\<not> high_surrogate (last inserted)"
  using assms
  by (auto simp: first_element_text_def new_declaration_text_def lit_def high_surrogate_def)

text \<open>The bytes written by a text patch.\<close>

lemma utf8_encode_insert:
  assumes "matched_anchor c s = Some (k, inserted)"
  shows "utf8_encode (take k s @ inserted @ drop k s)
           = utf8_encode (take k s) @ utf8_encode inserted @ utf8_encode (drop k s)"
    and "utf8_encode s = utf8_encode (take k s) @ utf8_encode (drop k s)"
proof -
  note m = matched_anchor_bracket [OF assms]
  have "take k s \<noteq> []"
    using m(1,2) by auto
  moreover have "last (take k s) = s ! (k - 1)"
    using m(1,2) by (cases k) (simp_all add: take_Suc_conv_app_nth)
  ultimately have l: "take k s = [] \<or> \<not> high_surrogate (last (take k s))"
    using m(3) by (auto simp: high_surrogate_def)
  have i: "inserted = [] \<or> \<not> high_surrogate (last inserted)"
    using inserted_last [OF m(4)] by simp
  show "utf8_encode (take k s @ inserted @ drop k s)
      = utf8_encode (take k s) @ utf8_encode inserted @ utf8_encode (drop k s)"
    by (simp only: utf8_encode_append [OF l] utf8_encode_append [OF i])
  show "utf8_encode s = utf8_encode (take k s) @ utf8_encode (drop k s)"
    using utf8_encode_append [OF l, of "drop k s"] by simp
qed

text \<open>
  C4, as the code has it. Let the bytes of a code-format file be well-formed UTF-8 and
  let the text patch succeed. Then the file is written once, and its new content is the
  bytes up to the end of the first anchor that occurs, the bytes of the inserted text
  (the template with its line breaks and comma, or the new plugins declaration around
  it), and the bytes that followed the anchor: every byte of the file is kept, in
  order, and nothing but the insertion right after the anchor is added.
\<close>

theorem frame_property:
  assumes "files w f = Some bytes" and "well_formed_utf8 bytes"
    and "fst (modifyAppConfigJs f colorSpace w) = Inr True"
  shows "\<exists>k inserted before after.
           matched_anchor colorSpace (utf8_decode bytes) = Some (k, inserted)
           \<and> before = utf8_encode (take k (utf8_decode bytes))
           \<and> after = utf8_encode (drop k (utf8_decode bytes))
           \<and> bytes = before @ after
           \<and> snd (modifyAppConfigJs f colorSpace w) =
               \<lparr>files = (files w)(f \<mapsto> before @ utf8_encode inserted @ after),
                trace = trace w
                  @ [ReadFileSync f,
                     WriteFileSync f
                       (take k (utf8_decode bytes) @ inserted @ drop k (utf8_decode bytes))]\<rparr>"
proof -
  let ?s = "utf8_decode bytes"
  from assms(1,3) obtain k inserted
    where a: "matched_anchor colorSpace ?s = Some (k, inserted)"
      and r: "modifyAppConfigJs f colorSpace w =
                (Inr True, writeFileSync f (take k ?s @ inserted @ drop k ?s)
                   (emit (ReadFileSync f) w))"
    by (auto simp: modifyAppConfigJs_eq split: if_splits option.splits)
  note e = utf8_encode_insert [OF a]
  have "bytes = utf8_encode (take k ?s) @ utf8_encode (drop k ?s)"
    using e(2) encode_decode [OF assms(2)] by simp
  moreover have "snd (modifyAppConfigJs f colorSpace w) =
      \<lparr>files = (files w)(f \<mapsto> utf8_encode (take k ?s) @ utf8_encode inserted
                                  @ utf8_encode (drop k ?s)),
       trace = trace w @ [ReadFileSync f,
                          WriteFileSync f (take k ?s @ inserted @ drop k ?s)]\<rparr>"
    unfolding r by (intro world_eqI) (simp_all add: e(1))
  ultimately show ?thesis
    using a by blast
qed

lemma commented_decoded:
  "utf8_decode utf8_config = commented_config 0xE9"
  "utf8_decode latin1_config = commented_config 0xFFFD"
  by (simp_all add: utf8_config_def latin1_config_def commented_config_def ascii_def lit_def
      js_config_source_def in_range_def code_point_units_def)

lemma commented_anchor:
  "matched_anchor c (commented_config u) = Some (45, first_element_text c)"
  by (simp add: commented_config_def matched_anchor_def lit_def js_config_source_def
      token_at_def is_space_def)

lemma commented_excludes:
  "u \<noteq> of_char CHR ''e'' \<Longrightarrow> \<not> String_includes (commented_config u) plugin_id"
  by (simp add: commented_config_def js_config_source_def plugin_id_def lit_def)

lemma commented_insertion:
  "take 45 (commented_config u) @ first_element_text displayP3 @ drop 45 (commented_config u)
     = commented_patched u"
  by (simp add: commented_config_def commented_patched_def lit_def js_config_source_def
      js_patched_source_def first_element_text_def)

lemma commented_encoded:
  "utf8_encode (commented_patched 0xE9) = utf8_patched"
  "utf8_encode (commented_patched 0xFFFD) = latin1_patched"
  by (simp_all add: utf8_patched_def latin1_patched_def commented_patched_def ascii_def
      lit_def js_patched_source_def high_surrogate_def low_surrogate_def
      encode_code_point_def)

theorem frame_property_witness:
  "\<exists>k inserted before after.
     matched_anchor displayP3 (utf8_decode utf8_config) = Some (k, inserted)
     \<and> before = utf8_encode (take k (utf8_decode utf8_config))
     \<and> after = utf8_encode (drop k (utf8_decode utf8_config))
     \<and> utf8_config = before @ after
     \<and> snd (modifyAppConfigJs ''app.config.js'' displayP3
               (start [''app.config.js'' \<mapsto> utf8_config])) =
         \<lparr>files = [''app.config.js'' \<mapsto> before @ utf8_encode inserted @ after],
          trace = [ReadFileSync ''app.config.js'',
                   WriteFileSync ''app.config.js''
                     (take k (utf8_decode utf8_config) @ inserted
                      @ drop k (utf8_decode utf8_config))]\<rparr>"
proof -
  have 1: "files (start [''app.config.js'' \<mapsto> utf8_config]) ''app.config.js''
      = Some utf8_config"
    by simp
  have 2: "well_formed_utf8 utf8_config"
    by (simp add: utf8_config_def ascii_def js_config_source_def in_range_def)
  have 3: "fst (modifyAppConfigJs ''app.config.js'' displayP3
                  (start [''app.config.js'' \<mapsto> utf8_config])) = Inr True"
    by (simp add: modifyAppConfigJs_eq [OF 1] commented_decoded commented_anchor
        commented_excludes)
  show ?thesis
    using frame_property [OF 1 2 3] by simp
qed

text \<open>
  C4 as stated fails on a file that is not UTF-8. The first line of the file is a comment
  in Latin-1 with the byte E9; the patch succeeds, and the file written has the three
  bytes EF BF BD in the place of that byte, which lies outside the inserted fragment.
\<close>

theorem latin1_counterexample:
  "modifyAppConfigJs ''app.config.js'' displayP3 (start [''app.config.js'' \<mapsto> latin1_config])
   = (Inr True,
      \<lparr>files = [''app.config.js'' \<mapsto> latin1_patched],
       trace = [ReadFileSync ''app.config.js'',
                WriteFileSync ''app.config.js'' (commented_patched 0xFFFD)]\<rparr>)
   \<and> 0xE9 \<in> set latin1_config \<and> 0xE9 \<notin> set latin1_patched"
proof -
  have 1: "files (start [''app.config.js'' \<mapsto> latin1_config]) ''app.config.js''
      = Some latin1_config"
    by simp
  have 3: "0xE9 \<in> set latin1_config \<and> 0xE9 \<notin> set latin1_patched"
    by (simp add: latin1_config_def latin1_patched_def ascii_def js_patched_source_def)
  have "modifyAppConfigJs ''app.config.js'' displayP3
      (start [''app.config.js'' \<mapsto> latin1_config])
    = (Inr True,
       writeFileSync ''app.config.js'' (commented_patched 0xFFFD)
         (emit (ReadFileSync ''app.config.js'') (start [''app.config.js'' \<mapsto> latin1_config])))"
    by (simp add: modifyAppConfigJs_eq [OF 1] commented_decoded commented_anchor
        commented_excludes commented_insertion)
  then show ?thesis
    using 3 by (simp add: writeFileSync_def emit_def start_def commented_encoded)
qed

subsection \<open>The patch of the parsed document\<close>

lemma get_prop_Some_truthy: "get_prop v k = Inr (Some x) \<Longrightarrow> truthy v"
  by (cases v) simp_all

lemma isPluginInConfig_truthy: "isPluginInConfig v \<Longrightarrow> truthy v"
  by (cases v) simp_all

lemma ensure_prop_present:
  "get_prop obj k = Inr (Some v) \<Longrightarrow> truthy v \<Longrightarrow> ensure_prop obj k dflt = Inr (obj, v)"
  by (simp add: ensure_prop_def bindE_def)

lemma patchConfig_detected:
  assumes "get_prop config k_expo = Inr (Some expo)"
    and "get_prop expo k_plugins = Inr (Some plugins)"
    and "isPluginInConfig plugins"
  shows "patchConfig config c = Inr None"
  using assms
  by (simp add: patchConfig_def bindE_def
      ensure_prop_present get_prop_Some_truthy isPluginInConfig_truthy)

lemma push_not_array: "\<not> Array_isArray v \<Longrightarrow> push v x = Inl TypeError"
  by (cases v) simp_all

lemma isPluginInConfig_array: "isPluginInConfig v \<Longrightarrow> Array_isArray v"
  by (cases v) simp_all

lemma patchConfig_not_array:
  assumes "get_prop config k_expo = Inr (Some expo)"
    and "get_prop expo k_plugins = Inr (Some plugins)"
    and "truthy plugins" and "\<not> Array_isArray plugins"
  shows "patchConfig config c = Inl TypeError"
  using assms isPluginInConfig_array [of plugins]
  by (auto simp: patchConfig_def bindE_def
      ensure_prop_present get_prop_Some_truthy push_not_array)

subsection \<open>Runs on the sample files\<close>

lemma sample_rows:
  "JSON_parse sample_runtime (lit scenario_source) = Some scenario_doc"
  "JSON_parse sample_runtime (lit patched_source) = Some patched_doc"
  "JSON_parse sample_runtime (lit empty_plugins_source) = Some empty_plugins_doc"
  "JSON_parse sample_runtime (lit string_plugins_source) = Some string_plugins_doc"
  "JSON_parse sample_runtime (lit malformed_source) = None"
  "JSON_stringify sample_runtime patched_doc 2 @ LF = lit patched_source"
  by (simp_all add: sample_runtime_def sample_parse_def sample_stringify_def
      scenario_source_def patched_source_def empty_plugins_source_def
      string_plugins_source_def malformed_source_def lit_def LF_def)

lemma chosen_simps [simp]:
  "chosenColorSpace (Some c) input = Some c"
  "chosenColorSpace None Closed = None"
  "chosenColorSpace None Silent = None"
  "chosenColorSpace None (Line answer) = Some (if trim answer = lit ''2'' then SRGB else displayP3)"
  by (simp_all add: chosenColorSpace_def)

lemma asked_simps [simp]:
  "asked (Some c) = []"
  "asked None = [ConsoleLog (PromptLine 0), ConsoleLog (PromptLine 1),
                 ConsoleLog (PromptLine 2), Question]"
  by (simp_all add: asked_def)

lemma located_sample:
  "fst (detectConfigFile (start [''app.config.js'' \<mapsto> bytes])) = Some ''app.config.js''"
  "fst (detectConfigFile (start [''app.config.ts'' \<mapsto> bytes])) = Some ''app.config.ts''"
  "fst (detectConfigFile (start [''app.json'' \<mapsto> bytes])) = Some ''app.json''"
  by (simp_all add: detectConfigFile_eq)

theorem no_anchor_no_write_witness:
  "fst (modifyAppConfigJs ''app.config.ts'' SRGB
          (start [''app.config.ts'' \<mapsto> ascii ts_config_source])) = Inr False
   \<and> apply_cmd sample_runtime None (Line (lit ''2''))
       (start [''app.config.ts'' \<mapsto> ascii ts_config_source])
     = (Exited 0,
        \<lparr>files = [''app.config.ts'' \<mapsto> ascii ts_config_source],
         trace = [ExistsSync ''app.json'', ExistsSync ''app.config.js'',
                  ExistsSync ''app.config.ts'',
                  ConsoleLog (FoundConfigFile ''app.config.ts''),
                  ConsoleLog (PromptLine 0), ConsoleLog (PromptLine 1),
                  ConsoleLog (PromptLine 2), Question,
                  ReadFileSync ''app.config.ts'',
                  ConsoleLog (CouldNotModify ''app.config.ts''),
                  ConsoleLog PleaseAddManually,
                  ConsoleLog (ManualEntry (lit ''  '' @ entry_template SRGB))]\<rparr>)"
proof -
  have 2: "\<not> String_includes (utf8_decode (ascii ts_config_source)) plugin_id"
    by (simp add: sample_decoded sample_excludes)
  have 3: "\<not> RegExp_test pluginsArrayRegex (utf8_decode (ascii ts_config_source))"
    "\<not> RegExp_test pluginsArrayJsonRegex (utf8_decode (ascii ts_config_source))"
    "\<not> RegExp_test expoObjectRegex (utf8_decode (ascii ts_config_source))"
    by (simp_all only: sample_decoded sample_tokens replace_at_token(1) [OF anchor_regexes(1)]
        replace_at_token(1) [OF anchor_regexes(2)] replace_at_token(1) [OF anchor_regexes(3)]
        simp_thms)
  have 4: "chosenColorSpace None (Line (lit ''2'')) = Some SRGB"
    by (simp add: trim_def lit_def is_space_def)
  show ?thesis
    using no_anchor_no_write [OF located_sample(2) _ _ 2 3 4,
        where colorSpace = SRGB and rt = sample_runtime]
    by (simp del: entry_template.simps)
qed

text \<open>
  C6. When \<open>app.json\<close> exists, it is the file selected; if \<open>JSON.parse\<close> throws on its
  content, a run in which a colour space is obtained prints the error "Failed to
  modify app.json" wrapping the SyntaxError, ends with exit code 1, and has written
  nothing: the files are as before.
\<close>

theorem parse_error_atomic:
  assumes "fs ''app.json'' = Some bytes" and "JSON_parse rt (utf8_decode bytes) = None"
    and "chosenColorSpace option input = Some c"
  shows "apply_cmd rt option input (start fs) =
     (Exited 1,
      \<lparr>files = fs,
       trace = probed ''app.json'' @ [ConsoleLog (FoundConfigFile ''app.json'')]
               @ asked option
               @ [ReadFileSync ''app.json'',
                  ConsoleError (ErrorMessage (FailedToModify ''app.json'' SyntaxError))]\<rparr>)"
  using assms by (simp add: located_json_run console_error_def emit_def)

theorem parse_error_atomic_witness:
  "apply_cmd sample_runtime (Some displayP3) Closed
     (start [''app.json'' \<mapsto> ascii malformed_source]) =
     (Exited 1,
      \<lparr>files = [''app.json'' \<mapsto> ascii malformed_source],
       trace = [ExistsSync ''app.json'', ConsoleLog (FoundConfigFile ''app.json''),
                ReadFileSync ''app.json'',
                ConsoleError (ErrorMessage (FailedToModify ''app.json'' SyntaxError))]\<rparr>)"
  using parse_error_atomic [of "[''app.json'' \<mapsto> ascii malformed_source]"
      "ascii malformed_source" sample_runtime "Some displayP3" Closed displayP3]
  by (simp add: sample_rows sample_decoded)

text \<open>
  C7 at the invocation \<open>apply --colorSpace=displayP3=foo\<close>, in a directory with
  \<open>app.config.js\<close>: the value of the flag, \<open>displayP3=foo\<close>, is neither \<open>displayP3\<close> nor
  \<open>SRGB\<close>, yet line 216 keeps of it only what stands before its first \<open>=\<close>; the run
  goes on with \<open>displayP3\<close>, reads the file, writes it and ends with exit code 0.
\<close>

theorem flag_value_accepted:
  "main rt [lit ''apply'', lit ''--colorSpace=displayP3=foo''] input
     (start [''app.config.js'' \<mapsto> ascii js_config_source])
   = (Exited 0,
      \<lparr>files = [''app.config.js'' \<mapsto> ascii js_patched_source],
       trace = [ExistsSync ''app.json'', ExistsSync ''app.config.js'',
                ConsoleLog (FoundConfigFile ''app.config.js''),
                ReadFileSync ''app.config.js'',
                WriteFileSync ''app.config.js'' (lit js_patched_source),
                ConsoleLog (SuccessfullyAdded displayP3),
                ConsoleLog (NextSteps 0), ConsoleLog (NextSteps 1), ConsoleLog (NextSteps 2)]\<rparr>)"
proof -
  have a: "lit ''--colorSpace=displayP3=foo'' = lit ''--colorSpace='' @ lit ''displayP3=foo''"
    by (simp add: lit_def)
  have b: "takeWhile (\<lambda>c. c \<noteq> of_char CHR ''='') (lit ''displayP3=foo'') = lit ''displayP3''"
    by (simp add: lit_def)
  have "main rt [lit ''apply'', lit ''--colorSpace=displayP3=foo''] input
      (start [''app.config.js'' \<mapsto> ascii js_config_source])
    = apply_cmd rt (Some displayP3) input (start [''app.config.js'' \<mapsto> ascii js_config_source])"
    unfolding a main_flag Let_def b by simp
  also have "\<dots> = (Exited 0,
      \<lparr>files = [''app.config.js'' \<mapsto> ascii js_patched_source],
       trace = [ExistsSync ''app.json'', ExistsSync ''app.config.js'',
                ConsoleLog (FoundConfigFile ''app.config.js''),
                ReadFileSync ''app.config.js'',
                WriteFileSync ''app.config.js'' (lit js_patched_source),
                ConsoleLog (SuccessfullyAdded displayP3),
                ConsoleLog (NextSteps 0), ConsoleLog (NextSteps 1), ConsoleLog (NextSteps 2)]\<rparr>)"
    by (simp add: located_code_run [OF located_sample(1), where bytes = "ascii js_config_source"
          and c = displayP3] sample_decoded sample_excludes sample_anchors sample_patched
        sample_encoded console_log_def emit_def
        del: entry_template.simps)
  finally show ?thesis .
qed

text \<open>
  C9, as the code has it. Let a configuration file be located. Without a colour space
  on invocation the question is asked right after the file is located and before its
  content is read (line 178 precedes the patchers, and detection, lines 85 and 110, is
  part of them). If the input is at its end, the run ends there with exit code 0 and
  nothing is read or written; if the input stays silent, the process waits there. Once
  a line is entered the file is read; if it already holds the entry the run then
  reports "already configured" and ends with exit code 0, the files unchanged. With a
  colour space on invocation no question is asked.
\<close>

theorem question_before_detection:
  assumes located: "fst (detectConfigFile (start fs)) = Some f"
    and content: "fs f = Some bytes"
  shows "apply_cmd rt None Closed (start fs) =
           (Exited 0,
            \<lparr>files = fs,
             trace = probed f
               @ [ConsoleLog (FoundConfigFile f), ConsoleLog (PromptLine 0),
                  ConsoleLog (PromptLine 1), ConsoleLog (PromptLine 2), Question]\<rparr>)
    \<and> apply_cmd rt None Silent (start fs) =
           (Waiting,
            \<lparr>files = fs,
             trace = probed f
               @ [ConsoleLog (FoundConfigFile f), ConsoleLog (PromptLine 0),
                  ConsoleLog (PromptLine 1), ConsoleLog (PromptLine 2), Question]\<rparr>)
    \<and> (\<exists>rest. trace (snd (apply_cmd rt None (Line answer) (start fs))) =
           probed f
           @ [ConsoleLog (FoundConfigFile f), ConsoleLog (PromptLine 0),
              ConsoleLog (PromptLine 1), ConsoleLog (PromptLine 2), Question,
              ReadFileSync f] @ rest)
    \<and> (entry_detected rt f (utf8_decode bytes) \<longrightarrow>
          apply_cmd rt None (Line answer) (start fs) =
           (Exited 0,
            \<lparr>files = fs,
             trace = probed f
               @ [ConsoleLog (FoundConfigFile f), ConsoleLog (PromptLine 0),
                  ConsoleLog (PromptLine 1), ConsoleLog (PromptLine 2), Question,
                  ReadFileSync f, ConsoleLog (AlreadyConfigured f)]\<rparr>))
    \<and> Question \<notin> set (trace (snd (apply_cmd rt (Some c) input (start fs))))"
proof -
  let ?pre = "probed f
     @ [ConsoleLog (FoundConfigFile f), ConsoleLog (PromptLine 0),
        ConsoleLog (PromptLine 1), ConsoleLog (PromptLine 2), Question]"
  let ?c = "if trim answer = lit ''2'' then SRGB else displayP3"
  have np: "Question \<notin> set (probed f)"
    by (auto simp: probed_def)
  have 1: "apply_cmd rt None Closed (start fs) = (Exited 0, \<lparr>files = fs, trace = ?pre\<rparr>)"
    by (simp add: located_run [OF located])
  have 2: "apply_cmd rt None Silent (start fs) = (Waiting, \<lparr>files = fs, trace = ?pre\<rparr>)"
    by (simp add: located_run [OF located])
  have 345: "(\<exists>rest. trace (snd (apply_cmd rt None (Line answer) (start fs))) =
                 ?pre @ [ReadFileSync f] @ rest)
      \<and> (entry_detected rt f (utf8_decode bytes) \<longrightarrow>
            apply_cmd rt None (Line answer) (start fs) =
              (Exited 0,
               \<lparr>files = fs,
                trace = ?pre @ [ReadFileSync f, ConsoleLog (AlreadyConfigured f)]\<rparr>))
      \<and> Question \<notin> set (trace (snd (apply_cmd rt (Some c) input (start fs))))"
  proof (cases "f = ''app.json''")
    case True
    have content': "fs ''app.json'' = Some bytes"
      using content True by simp
    note run = located_json_run [where fs = fs and rt = rt, OF content']
    have d: "patchConfig config c' = Inr None"
      if "entry_detected rt f (utf8_decode bytes)"
        and "JSON_parse rt (utf8_decode bytes) = Some config" for config c'
      using that True
      by (auto simp: entry_detected_def intro: patchConfig_detected
          split: option.splits sum.splits)
    have e: "entry_detected rt f (utf8_decode bytes) \<Longrightarrow>
        \<exists>config. JSON_parse rt (utf8_decode bytes) = Some config"
      using True by (auto simp: entry_detected_def split: option.splits)
    show ?thesis
      using e d
      by (auto simp: run [where option = None and input = "Line answer" and c = ?c]
          run [where option = "Some c" and input = input and c = c] True np
          console_error_def console_log_def emit_def
          split: option.splits sum.splits)
  next
    case False
    note run = located_code_run [OF located False content, where rt = rt]
    have "entry_detected rt f (utf8_decode bytes)
        \<longleftrightarrow> String_includes (utf8_decode bytes) plugin_id"
      using located_code [OF located False] by (auto simp: entry_detected_def)
    then show ?thesis
      by (auto simp: run [where option = None and input = "Line answer" and c = ?c]
          run [where option = "Some c" and input = input and c = c] np
          console_error_def console_log_def emit_def
          split: option.splits simp del: entry_template.simps)
  qed
  show ?thesis
    using 1 2 345 by simp
qed

lemma js_patched_detected:
  "entry_detected rt ''app.config.js'' (utf8_decode (ascii js_patched_source))"
  by (simp only: sample_decoded)
     (simp add: entry_detected_def js_patched_source_def plugin_id_def lit_def)

theorem question_before_detection_witness:
  "apply_cmd sample_runtime None Closed (start [''app.config.js'' \<mapsto> ascii js_patched_source]) =
     (Exited 0,
      \<lparr>files = [''app.config.js'' \<mapsto> ascii js_patched_source],
       trace = [ExistsSync ''app.json'', ExistsSync ''app.config.js'',
                ConsoleLog (FoundConfigFile ''app.config.js''),
                ConsoleLog (PromptLine 0), ConsoleLog (PromptLine 1),
                ConsoleLog (PromptLine 2), Question]\<rparr>)
   \<and> apply_cmd sample_runtime None (Line []) (start [''app.config.js'' \<mapsto> ascii js_patched_source]) =
     (Exited 0,
      \<lparr>files = [''app.config.js'' \<mapsto> ascii js_patched_source],
       trace = [ExistsSync ''app.json'', ExistsSync ''app.config.js'',
                ConsoleLog (FoundConfigFile ''app.config.js''),
                ConsoleLog (PromptLine 0), ConsoleLog (PromptLine 1),
                ConsoleLog (PromptLine 2), Question,
                ReadFileSync ''app.config.js'',
                ConsoleLog (AlreadyConfigured ''app.config.js'')]\<rparr>)"
  using question_before_detection [OF located_sample(1),
      where bytes = "ascii js_patched_source" and rt = sample_runtime and answer = "[]"]
    js_patched_detected [of sample_runtime]
  by simp

lemma patched_doc_detected: "patchConfig patched_doc c = Inr None"
  by (rule patchConfig_detected [where expo = "JObj [(lit ''name'', JStr (lit ''X'')),
        (lit ''plugins'', JArr [plugin_entry SRGB] [])]"
        and plugins = "JArr [plugin_entry SRGB] []"])
     (simp_all add: patched_doc_def k_expo_def k_plugins_def lit_def plugin_entry_def
        plugin_id_def)

text \<open>
  C9 as stated fails: \<open>app.json\<close> already holds the entry and no colour space was
  given; the trace of the run has the question, before the file is read.
\<close>

theorem prompt_counterexample:
  "entry_detected sample_runtime ''app.json'' (utf8_decode (ascii patched_source))
   \<and> apply_cmd sample_runtime None (Line []) (start [''app.json'' \<mapsto> ascii patched_source]) =
     (Exited 0,
      \<lparr>files = [''app.json'' \<mapsto> ascii patched_source],
       trace = [ExistsSync ''app.json'', ConsoleLog (FoundConfigFile ''app.json''),
                ConsoleLog (PromptLine 0), ConsoleLog (PromptLine 1),
                ConsoleLog (PromptLine 2), Question,
                ReadFileSync ''app.json'',
                ConsoleLog (AlreadyConfigured ''app.json'')]\<rparr>)"
proof -
  have d: "entry_detected sample_runtime ''app.json'' (utf8_decode (ascii patched_source))"
    by (simp only: sample_decoded)
       (simp add: entry_detected_def sample_rows,
        simp add: patched_doc_def k_expo_def k_plugins_def plugin_entry_def plugin_id_def
          lit_def)
  have c: "chosenColorSpace None (Line []) = Some displayP3"
    by (simp add: trim_def lit_def)
  show ?thesis
    using d
    by (simp add: located_json_run [where bytes = "ascii patched_source", OF _ c]
        sample_decoded sample_rows patched_doc_detected)
qed

text \<open>
  C10, as the code has it. When \<open>expo.plugins\<close> of the parsed document is a truthy value
  that is not an array (a non-empty string, a number other than zero, \<open>true\<close> or an
  object), the \<open>push\<close> throws a TypeError: a run in which a colour space is obtained
  prints "Failed to modify app.json" wrapping it, ends with exit code 1, and the files
  are as before.
\<close>

theorem non_array_plugins_rejected:
  assumes "fs ''app.json'' = Some bytes"
    and "JSON_parse rt (utf8_decode bytes) = Some config"
    and "get_prop config k_expo = Inr (Some expo)"
    and "get_prop expo k_plugins = Inr (Some plugins)"
    and "truthy plugins" and "\<not> Array_isArray plugins"
    and "chosenColorSpace option input = Some c"
  shows "apply_cmd rt option input (start fs) =
     (Exited 1,
      \<lparr>files = fs,
       trace = probed ''app.json'' @ [ConsoleLog (FoundConfigFile ''app.json'')]
               @ asked option
               @ [ReadFileSync ''app.json'',
                  ConsoleError (ErrorMessage (FailedToModify ''app.json'' TypeError))]\<rparr>)"
  using assms
  by (simp add: located_json_run patchConfig_not_array console_error_def emit_def)

theorem non_array_plugins_rejected_witness:
  "apply_cmd sample_runtime (Some SRGB) Closed
     (start [''app.json'' \<mapsto> ascii string_plugins_source]) =
     (Exited 1,
      \<lparr>files = [''app.json'' \<mapsto> ascii string_plugins_source],
       trace = [ExistsSync ''app.json'', ConsoleLog (FoundConfigFile ''app.json''),
                ReadFileSync ''app.json'',
                ConsoleError (ErrorMessage (FailedToModify ''app.json'' TypeError))]\<rparr>)"
proof -
  have p: "JSON_parse sample_runtime (utf8_decode (ascii string_plugins_source))
      = Some string_plugins_doc"
    by (simp only: sample_decoded sample_rows)
  have e: "get_prop string_plugins_doc k_expo
      = Inr (Some (JObj [(lit ''plugins'', JStr (lit ''expo-font''))]))"
    by (simp add: string_plugins_doc_def k_expo_def)
  have q: "get_prop (JObj [(lit ''plugins'', JStr (lit ''expo-font''))]) k_plugins
      = Inr (Some (JStr (lit ''expo-font'')))"
    by (simp add: k_plugins_def)
  have t: "truthy (JStr (lit ''expo-font''))" "\<not> Array_isArray (JStr (lit ''expo-font''))"
    by (simp_all add: lit_def)
  have c: "chosenColorSpace (Some SRGB) Closed = Some SRGB"
    by simp
  show ?thesis
    using non_array_plugins_rejected
      [where fs = "[''app.json'' \<mapsto> ascii string_plugins_source]", OF _ p e q t c]
    by simp
qed

lemma patch_empty_plugins: "patchConfig empty_plugins_doc SRGB = Inr (Some patched_doc)"
  by (simp add: empty_plugins_doc_def patched_doc_def patchConfig_def ensure_prop_def
      bindE_def k_expo_def k_plugins_def lit_def plugin_entry_def plugin_id_def)

text \<open>
  C10 as stated fails for a falsy value: in \<open>{"expo":{"name":"X","plugins":""}}\<close>
  the field \<open>plugins\<close> exists and is a string, not an array; line 80 replaces it by a
  new list, the entry is pushed, the file is written and the run ends with exit code 0.
\<close>

theorem falsy_plugins_counterexample:
  "JSON_parse sample_runtime (utf8_decode (ascii empty_plugins_source))
     = Some (JObj [(lit ''expo'',
               JObj [(lit ''name'', JStr (lit ''X'')), (lit ''plugins'', JStr [])])])
   \<and> apply_cmd sample_runtime (Some SRGB) Closed
       (start [''app.json'' \<mapsto> ascii empty_plugins_source]) =
     (Exited 0,
      \<lparr>files = [''app.json'' \<mapsto> ascii patched_source],
       trace = [ExistsSync ''app.json'', ConsoleLog (FoundConfigFile ''app.json''),
                ReadFileSync ''app.json'',
                WriteFileSync ''app.json'' (lit patched_source),
                ConsoleLog (SuccessfullyAdded SRGB),
                ConsoleLog (NextSteps 0), ConsoleLog (NextSteps 1),
                ConsoleLog (NextSteps 2)]\<rparr>)"
proof -
  have c: "chosenColorSpace (Some SRGB) Closed = Some SRGB"
    by simp
  have "JSON_parse sample_runtime (utf8_decode (ascii empty_plugins_source))
      = Some (JObj [(lit ''expo'',
                JObj [(lit ''name'', JStr (lit ''X'')), (lit ''plugins'', JStr [])])])"
    by (simp add: sample_decoded sample_rows empty_plugins_doc_def)
  then show ?thesis
    by (simp add: located_json_run [where bytes = "ascii empty_plugins_source", OF _ c]
        sample_decoded sample_rows patch_empty_plugins sample_encoded
        console_log_def emit_def)
qed

end
